theory Spec2Isabelle
  imports Main
begin

section \<open>The build orchestrator of the git-receive builder\<close>

text \<open>
  A shallow embedding of \<^verbatim>\<open>build\<close>, \<^verbatim>\<open>buildBuilderPodNodeSelector\<close> and
  \<^verbatim>\<open>getProcFile\<close> (package gitreceive) and of \<^verbatim>\<open>CheckAPICompat\<close>
  (package controller). Go strings are byte strings (\<^typ>\<open>string\<close>); a Go
  \<^verbatim>\<open>map[string]string\<close> is a map \<^typ>\<open>string \<rightharpoonup> string\<close>; every call that leaves
  the process (file system, object storage, Kubernetes, controller, sub-processes) takes
  its result from a record of the outside world and is written to a trace of events.
\<close>

subsection \<open>Strings and maps of the Go runtime\<close>

text \<open>\<^verbatim>\<open>m[k]\<close> on a \<^verbatim>\<open>map[string]string\<close>: the empty string for an absent key.\<close>

definition index :: "(string \<rightharpoonup> string) \<Rightarrow> string \<Rightarrow> string" where
  "index m k = (case m k of None \<Rightarrow> [] | Some v \<Rightarrow> v)"

text \<open>
  \<^verbatim>\<open>strings.Split(s, sep)\<close> for a separator of one byte (the two calls of the source
  split at a comma and at a colon): the pieces between the separators, one piece more
  than there are separators, so the empty string gives one empty piece.
\<close>

fun Split :: "string \<Rightarrow> char \<Rightarrow> string list" where
  "Split [] sep = [[]]"
| "Split (c # s) sep =
     (if c = sep then [] # Split s sep
      else (c # hd (Split s sep)) # tl (Split s sep))"

text \<open>
  \<^verbatim>\<open>strings.TrimSpace\<close> removes the leading and the trailing white space of a string,
  white space being the code points of \<^verbatim>\<open>unicode.IsSpace\<close>: U+0009 to U+000D, U+0020,
  U+0085, U+00A0, U+1680, U+2000 to U+200A, U+2028, U+2029, U+202F, U+205F and U+3000.
  A Go string is a sequence of bytes that is read as UTF-8, forwards from the start and
  backwards from the end; bytes that are not the shortest encoding of a code point are
  read one byte at a time as U+FFFD, which is not white space. So a string begins, or
  ends, with a white-space rune exactly when it begins, or ends, with one of the
  encodings listed here.
\<close>

definition spaceRunes :: "string list" where
  "spaceRunes =
     [[CHR 0x09], [CHR 0x0A], [CHR 0x0B], [CHR 0x0C], [CHR 0x0D], [CHR 0x20],
      [CHR 0xC2, CHR 0x85], [CHR 0xC2, CHR 0xA0],
      [CHR 0xE1, CHR 0x9A, CHR 0x80], [CHR 0xE2, CHR 0x80, CHR 0x80],
      [CHR 0xE2, CHR 0x80, CHR 0x81], [CHR 0xE2, CHR 0x80, CHR 0x82],
      [CHR 0xE2, CHR 0x80, CHR 0x83], [CHR 0xE2, CHR 0x80, CHR 0x84],
      [CHR 0xE2, CHR 0x80, CHR 0x85], [CHR 0xE2, CHR 0x80, CHR 0x86],
      [CHR 0xE2, CHR 0x80, CHR 0x87], [CHR 0xE2, CHR 0x80, CHR 0x88],
      [CHR 0xE2, CHR 0x80, CHR 0x89], [CHR 0xE2, CHR 0x80, CHR 0x8A],
      [CHR 0xE2, CHR 0x80, CHR 0xA8], [CHR 0xE2, CHR 0x80, CHR 0xA9],
      [CHR 0xE2, CHR 0x80, CHR 0xAF], [CHR 0xE2, CHR 0x81, CHR 0x9F],
      [CHR 0xE3, CHR 0x80, CHR 0x80]]"

text \<open>
  \<open>trimLeading runes s\<close> drops from the start of \<open>s\<close> every byte sequence of \<open>runes\<close> (of
  one, two or three bytes) and stops at the first byte that does not begin one.
\<close>

fun trimLeading :: "string list \<Rightarrow> string \<Rightarrow> string" where
  "trimLeading runes [] = []"
| "trimLeading runes (c # s) =
     (if [c] \<in> set runes then trimLeading runes s
      else if take 2 (c # s) \<in> set runes then trimLeading runes (drop 1 s)
      else if take 3 (c # s) \<in> set runes then trimLeading runes (drop 2 s)
      else c # s)"

definition TrimLeftSpace :: "string \<Rightarrow> string" where
  "TrimLeftSpace s = trimLeading spaceRunes s"

text \<open>The same from the end: the reversed string begins with the reversed encoding.\<close>

definition TrimRightSpace :: "string \<Rightarrow> string" where
  "TrimRightSpace s = rev (trimLeading (map rev spaceRunes) (rev s))"

definition TrimSpace :: "string \<Rightarrow> string" where
  "TrimSpace s = TrimRightSpace (TrimLeftSpace s)"

text \<open>\<^verbatim>\<open>strings.Contains(s, substr)\<close>: \<open>substr\<close> occurs in \<open>s\<close> as a contiguous run.\<close>

fun Contains :: "string \<Rightarrow> string \<Rightarrow> bool" where
  "Contains [] sub = (sub = [])"
| "Contains (c # s) sub = (take (length sub) (c # s) = sub \<or> Contains s sub)"

subsection \<open>Node selector\<close>

datatype config_fault =
    BadPullPolicy string
  | BadSha string
  | BadNodeSelector string

text \<open>
  The loop of \<^verbatim>\<open>buildBuilderPodNodeSelector\<close> over the comma-separated lines: the
  first line that does not split into exactly two parts at its colons ends the function
  with the error \<^verbatim>\<open>Invalid BuilderPodNodeSelector value format: <config>\<close>; otherwise
  the trimmed first part is bound to the trimmed second part.
\<close>

fun selectorLines ::
  "string \<Rightarrow> string list \<Rightarrow> (string \<rightharpoonup> string) \<Rightarrow> config_fault + (string \<rightharpoonup> string)" where
  "selectorLines config [] selector = Inr selector"
| "selectorLines config (line # rest) selector =
     (let param = Split line (CHR '':'') in
      if length param \<noteq> 2 then Inl (BadNodeSelector config)
      else selectorLines config rest
             (selector(TrimSpace (param ! 0) \<mapsto> TrimSpace (param ! 1))))"

definition buildBuilderPodNodeSelector :: "string \<Rightarrow> config_fault + (string \<rightharpoonup> string)" where
  "buildBuilderPodNodeSelector config =
     (if config \<noteq> [] then selectorLines config (Split config (CHR '','')) Map.empty
      else Inr Map.empty)"

subsection \<open>Data of a build\<close>

type_synonym goerr = string

datatype storage_error = PathNotFound | StorageFault string

datatype ctl_error = ErrAPIMismatch | ErrController string

type_synonym ProcessType = "string \<rightharpoonup> string"

text \<open>
  The fields of \<^verbatim>\<open>Config\<close> that \<^verbatim>\<open>build\<close> reads; \<open>App\<close> is the value of the method
  \<^verbatim>\<open>conf.App()\<close>. The three durations only parametrise the waits, whose results come
  from the outside world.
\<close>

record Config =
  DockerBuilderImagePullPolicy :: string
  SlugBuilderImagePullPolicy :: string
  Repository :: string
  GitHome :: string
  App :: string
  ControllerHost :: string
  ControllerPort :: string
  Username :: string
  BuilderPodNodeSelector :: string
  RegistryLocation :: string
  PodNamespace :: string
  Debug :: bool
  StorageType :: string
  RegistryHost :: string
  RegistryPort :: string

datatype PullPolicy = PullAlways | PullIfNotPresent | PullNever

text \<open>
  Modelled from the spec: \<^verbatim>\<open>k8s.PullPolicyFromString\<close> is not among the sources. The
  pull policy is drawn from the fixed set Always, IfNotPresent, Never; any other string
  is a configuration error.
\<close>

definition PullPolicyFromString :: "string \<Rightarrow> config_fault + PullPolicy" where
  "PullPolicyFromString s =
     (if s = ''Always'' then Inr PullAlways
      else if s = ''IfNotPresent'' then Inr PullIfNotPresent
      else if s = ''Never'' then Inr PullNever
      else Inl (BadPullPolicy s))"

text \<open>
  Modelled from the spec: \<^verbatim>\<open>git.NewSha\<close> and \<^verbatim>\<open>Short\<close> are not among the sources. A
  SHA is 40 hexadecimal digits; its short form is the first 8 of them.
\<close>

definition isHex :: "char \<Rightarrow> bool" where
  "isHex c = (c \<in> set ''0123456789abcdefABCDEF'')"

definition NewSha :: "string \<Rightarrow> config_fault + string" where
  "NewSha raw = (if length raw = 40 \<and> list_all isHex raw then Inr raw else Inl (BadSha raw))"

definition Short :: "string \<Rightarrow> string" where
  "Short sha = take 8 sha"

text \<open>
  Modelled from the spec: \<^verbatim>\<open>NewSlugBuilderInfo\<close> and its accessors are not among the
  sources. The object-storage keys are those of the spec's key layout; the cache key is
  the per-app key (the source reads it while caching is disabled, to delete the object).
\<close>

record SlugBuilderInfo =
  TarKey :: string
  PushKey :: string
  AbsoluteSlugObjectKey :: string
  AbsoluteProcfileKey :: string
  CacheKey :: string
  DisableCaching :: bool

definition NewSlugBuilderInfo :: "string \<Rightarrow> string \<Rightarrow> bool \<Rightarrow> SlugBuilderInfo" where
  "NewSlugBuilderInfo appName shortSha disableCaching =
     \<lparr> TarKey = ''home/'' @ appName @ '':git-'' @ shortSha @ ''/tar'',
       PushKey = ''home/'' @ appName @ '':git-'' @ shortSha @ ''/push'',
       AbsoluteSlugObjectKey = ''home/'' @ appName @ '':git-'' @ shortSha @ ''/push/slug.tgz'',
       AbsoluteProcfileKey = ''home/'' @ appName @ '':git-'' @ shortSha @ ''/push/Procfile'',
       CacheKey = ''home/'' @ appName @ ''/cache'',
       DisableCaching = disableCaching \<rparr>"

text \<open>
  Modelled from the spec: the pod names \<^verbatim>\<open>dockerBuilderPodName\<close> and
  \<^verbatim>\<open>slugBuilderPodName\<close> are not among the sources; the spec gives
  \<^verbatim>\<open>{kind}-{app}-{shortSha}\<close> with kind docker or slug.
\<close>

definition dockerBuilderPodName :: "string \<Rightarrow> string \<Rightarrow> string" where
  "dockerBuilderPodName appName shortSha = ''docker-'' @ appName @ ''-'' @ shortSha"

definition slugBuilderPodName :: "string \<Rightarrow> string \<Rightarrow> string" where
  "slugBuilderPodName appName shortSha = ''slug-'' @ appName @ ''-'' @ shortSha"

text \<open>
  Modelled from the spec: the constructors \<^verbatim>\<open>dockerBuilderPod\<close> and
  \<^verbatim>\<open>slugbuilderPod\<close> are not among the sources. They are pure; a pod specification is
  recorded as the arguments it was built from, in the order of the call.
\<close>

record DockerPodSpec =
  dp_debug :: bool
  dp_name :: string
  dp_namespace :: string
  dp_env :: "string \<rightharpoonup> string"
  dp_tarKey :: string
  dp_gitShortHash :: string
  dp_imageTag :: string
  dp_storageType :: string
  dp_builderImage :: string
  dp_registryHost :: string
  dp_registryPort :: string
  dp_registryEnv :: "string \<rightharpoonup> string"
  dp_pullPolicy :: PullPolicy
  dp_nodeSelector :: "string \<rightharpoonup> string"

record SlugPodSpec =
  sp_debug :: bool
  sp_name :: string
  sp_namespace :: string
  sp_env :: "string \<rightharpoonup> string"
  sp_envSecretName :: string
  sp_tarKey :: string
  sp_putKey :: string
  sp_cacheKey :: string
  sp_gitShortHash :: string
  sp_storageType :: string
  sp_builderImage :: string
  sp_pullPolicy :: PullPolicy
  sp_nodeSelector :: "string \<rightharpoonup> string"

datatype Pod = DockerBuilderPod DockerPodSpec | SlugBuilderPod SlugPodSpec

text \<open>The arguments of \<^verbatim>\<open>hooks.CreateBuild\<close> after the client.\<close>

record CreateBuildArgs =
  cb_user :: string
  cb_app :: string
  cb_image :: string
  cb_stack :: string
  cb_sha :: string
  cb_procType :: ProcessType
  cb_isContainer :: bool

subsection \<open>Errors and outcomes\<close>

text \<open>
  One constructor for each \<^verbatim>\<open>return\<close> of an error in \<^verbatim>\<open>build\<close> and \<^verbatim>\<open>getProcFile\<close>,
  named after the error kind of the spec where it has one. \<open>BuilderFailed code\<close> is
  \<^verbatim>\<open>build pod exited with code %d, stopping build\<close>; \<open>PodStatusFailed\<close> is
  \<^verbatim>\<open>error getting builder pod status\<close>, which the source returns both when the wait
  for the pod's end fails and when the pod cannot be fetched.
\<close>

datatype procfile_fault =
    LocalUnreadable string goerr
  | LocalMalformed string
  | ObjectUnreadable string storage_error
  | ObjectMalformed string

datatype build_error =
    ConfigInvalid config_fault
  | MkdirFailed string goerr
  | TmpDirFailed string goerr
  | ControllerNewFailed goerr
  | GetAppConfigFailed ctl_error
  | CacheDeleteFailed storage_error
  | RunFailed "string list" goerr
  | ReadTarballFailed string goerr
  | UploadFailed string string storage_error
  | RegistryDetailsFailed goerr
  | SecretFailed string goerr
  | PodCreateFailed goerr
  | PodStartFailed goerr
  | LogStreamFailed goerr
  | FetchingLogsFailed goerr
  | PodStatusFailed goerr
  | BuilderFailed int
  | ProcfileInvalid procfile_fault
  | PublishFailed ctl_error

text \<open>
  \<open>Success\<close> is the return of \<^verbatim>\<open>nil\<close>, \<open>Failed e\<close> the return of an error, \<open>Panicked\<close>
  the run-time panic of a nil pointer dereference (deferred calls still run).
\<close>

datatype outcome = Success | Failed build_error | Panicked

subsection \<open>The outside world and the trace of a build\<close>

text \<open>
  A container status of the fetched pod, reduced to what the source reads:
  \<^verbatim>\<open>State.Terminated\<close> is a pointer, \<open>None\<close> when nil and \<open>Some code\<close> when it points to
  a terminated state with \<^verbatim>\<open>ExitCode\<close> \<open>code\<close>.
\<close>

type_synonym ContainerStatus = "int option"

text \<open>
  The result of every call that leaves the process, as a function of the call's
  arguments. An error result is \<open>Some e\<close> or \<open>Inl e\<close>; \<open>None\<close> is Go's nil error. The two
  controller calls return their response together with the error, as the SDK does.
  \<open>getStack\<close>, \<open>getRegistryDetails\<close>, \<open>createAppEnvConfigSecret\<close>, \<open>waitForPod\<close> and
  \<open>waitForPodEnd\<close> are functions of the repository that are not among the sources; they
  are taken as they come. \<open>getRegistryDetails\<close> receives a pointer to \<open>image\<close> and may
  overwrite it, so its result carries the new value of \<open>image\<close>; the map it returns
  with a nil error is taken to be allocated, since \<^verbatim>\<open>build\<close> stores into it.
  \<open>yaml_Unmarshal\<close> is the decoding of a Procfile into an empty \<open>ProcessType\<close>, \<open>None\<close>
  when the text is malformed. \<open>controller_New\<close> is the error of \<^verbatim>\<open>controller.New\<close>, which
  fails when the SDK client cannot be made or the builder key cannot be read.
\<close>

record world =
  os_MkdirAll :: "string \<Rightarrow> goerr option"
  ioutil_TempDir :: "string \<Rightarrow> string \<Rightarrow> goerr + string"
  os_RemoveAll :: "string \<Rightarrow> goerr option"
  controller_New :: "string \<Rightarrow> string \<Rightarrow> goerr option"
  hooks_GetAppConfig :: "string \<Rightarrow> string \<Rightarrow> (string \<rightharpoonup> string) \<times> ctl_error option"
  storage_Stat :: "string \<Rightarrow> storage_error option"
  storage_Delete :: "string \<Rightarrow> storage_error option"
  cmd_Run :: "string \<Rightarrow> string list \<Rightarrow> goerr option"
  getStack :: "string \<Rightarrow> (string \<rightharpoonup> string) \<Rightarrow> (string \<rightharpoonup> string)"
  ioutil_ReadFile :: "string \<Rightarrow> goerr + string"
  storage_PutContent :: "string \<Rightarrow> string \<Rightarrow> storage_error option"
  getRegistryDetails ::
    "string \<Rightarrow> string \<Rightarrow> string \<Rightarrow> goerr + ((string \<rightharpoonup> string) \<times> string)"
  createAppEnvConfigSecret :: "string \<Rightarrow> string \<Rightarrow> (string \<rightharpoonup> string) \<Rightarrow> goerr option"
  secrets_Delete :: "string \<Rightarrow> string \<Rightarrow> goerr option"
  pods_Create :: "string \<Rightarrow> Pod \<Rightarrow> goerr option"
  waitForPod :: "string \<Rightarrow> string \<Rightarrow> goerr option"
  req_Stream :: "string \<Rightarrow> string \<Rightarrow> goerr option"
  io_Copy :: "string \<Rightarrow> string \<Rightarrow> goerr option"
  waitForPodEnd :: "string \<Rightarrow> string \<Rightarrow> goerr option"
  pods_Get :: "string \<Rightarrow> string \<Rightarrow> goerr + ContainerStatus list"
  os_Stat :: "string \<Rightarrow> goerr option"
  storage_GetContent :: "string \<Rightarrow> storage_error + string"
  yaml_Unmarshal :: "string \<Rightarrow> ProcessType option"
  hooks_CreateBuild :: "CreateBuildArgs \<Rightarrow> int \<times> ctl_error option"

text \<open>
  The log lines that report a failure the build goes on after, and the line that prints
  the release; the progress lines of \<^verbatim>\<open>log.Debug\<close> and \<^verbatim>\<open>log.Info\<close> are left out.
\<close>

datatype log_line =
    WarnAPIMismatch
  | UnableToRemoveTmpdir string goerr
  | UnableToDeleteSecret string goerr
  | Deployed string int

text \<open>
  One event for each call that leaves the process, with the arguments that matter; the
  two calls on secrets carry their result as well.
\<close>

datatype event =
    EvMkdirAll string
  | EvTempDir string string
  | EvRemoveAll string
  | EvControllerNew string string
  | EvGetAppConfig string string
  | EvStat string
  | EvDelete string
  | EvRun string "string list"
  | EvGetStack string
  | EvReadFile string
  | EvPutContent string string
  | EvGetRegistryDetails string string string
  | EvCreateSecret string string "goerr option"
  | EvDeleteSecret string string "goerr option"
  | EvCreatePod string Pod
  | EvWatcherRun
  | EvWatcherStop
  | EvWaitForPod string string
  | EvStreamOpen string string
  | EvStreamCopy string string
  | EvStreamClose
  | EvWaitForPodEnd string string
  | EvGetPod string string
  | EvOsStat string
  | EvGetContent string
  | EvProgressStart
  | EvProgressQuit
  | EvCreateBuild CreateBuildArgs
  | EvLog log_line

text \<open>
  A part of \<^verbatim>\<open>build\<close> yields its outcome and the events of its calls, oldest first.
  \<open>emit e r\<close> is the call \<open>e\<close> followed by what \<open>r\<close> stands for.
\<close>

type_synonym run = "outcome \<times> event list"

definition emit :: "event \<Rightarrow> 'a \<times> event list \<Rightarrow> 'a \<times> event list" where
  "emit e r = (fst r, e # snd r)"

text \<open>
  A \<^verbatim>\<open>defer\<close> statement: the deferred call runs when the rest of the function has
  ended, whatever its outcome, and leaves the outcome as it is. Deferred calls registered
  later cover a shorter rest, so they run first.
\<close>

definition deferred :: "event list \<Rightarrow> run \<Rightarrow> run" where
  "deferred cleanup r = (fst r, snd r @ cleanup)"

text \<open>
  The secrets (namespace and name) of the cluster after a trace, from those before it: a
  call on a secret that returns nil takes effect, one that returns an error leaves the
  secrets as they were.
\<close>

fun secretsStep :: "(string \<times> string) set \<Rightarrow> event \<Rightarrow> (string \<times> string) set" where
  "secretsStep S (EvCreateSecret ns name None) = insert (ns, name) S"
| "secretsStep S (EvDeleteSecret ns name None) = S - {(ns, name)}"
| "secretsStep S e = S"

definition secretsAfter :: "(string \<times> string) set \<Rightarrow> event list \<Rightarrow> (string \<times> string) set" where
  "secretsAfter S tr = foldl secretsStep S tr"

text \<open>The arguments of the calls of \<^verbatim>\<open>hooks.CreateBuild\<close> in a trace, and the pods created.\<close>

fun createBuildCalls :: "event list \<Rightarrow> CreateBuildArgs list" where
  "createBuildCalls [] = []"
| "createBuildCalls (EvCreateBuild a # tr) = a # createBuildCalls tr"
| "createBuildCalls (e # tr) = createBuildCalls tr"

fun createdPods :: "event list \<Rightarrow> Pod list" where
  "createdPods [] = []"
| "createdPods (EvCreatePod ns p # tr) = p # createdPods tr"
| "createdPods (e # tr) = createdPods tr"

text \<open>
  \<open>precededBy P Q tr\<close>: every event of \<open>tr\<close> that satisfies \<open>Q\<close> comes after an event that
  satisfies \<open>P\<close>.
\<close>

fun precededBy :: "(event \<Rightarrow> bool) \<Rightarrow> (event \<Rightarrow> bool) \<Rightarrow> event list \<Rightarrow> bool" where
  "precededBy P Q [] = True"
| "precededBy P Q (e # tr) = (P e \<or> (\<not> Q e \<and> precededBy P Q tr))"

subsection \<open>Package controller\<close>

text \<open>
  \<^verbatim>\<open>CheckAPICompat\<close>: the sentinel \<^verbatim>\<open>drycc.ErrAPIMismatch\<close> is logged as a warning and
  nil is returned; any other value of \<open>err\<close>, nil included, is returned as it is.
\<close>

definition CheckAPICompat :: "ctl_error option \<Rightarrow> ctl_error option \<times> event list" where
  "CheckAPICompat err =
     (if err = Some ErrAPIMismatch then (None, [EvLog WarnAPIMismatch]) else (err, []))"

subsection \<open>Procfile resolution\<close>

definition getProcFile ::
  "world \<Rightarrow> string \<Rightarrow> string \<Rightarrow> (string \<rightharpoonup> string)
     \<Rightarrow> (procfile_fault + ProcessType) \<times> event list" where
  "getProcFile w dirName procfileKey stack =
     emit (EvOsStat (dirName @ ''/Procfile''))
       (if os_Stat w (dirName @ ''/Procfile'') = None then
          emit (EvReadFile (dirName @ ''/Procfile''))
            (case ioutil_ReadFile w (dirName @ ''/Procfile'') of
               Inl e \<Rightarrow> (Inl (LocalUnreadable dirName e), [])
             | Inr rawProcFile \<Rightarrow>
                 (case yaml_Unmarshal w rawProcFile of
                    None \<Rightarrow> (Inl (LocalMalformed dirName), [])
                  | Some procType \<Rightarrow> (Inr procType, [])))
        else if index stack ''name'' = ''container'' then (Inr Map.empty, [])
        else
          emit (EvGetContent procfileKey)
            (case storage_GetContent w procfileKey of
               Inl e \<Rightarrow> (Inl (ObjectUnreadable procfileKey e), [])
             | Inr rawProcFile \<Rightarrow>
                 (case yaml_Unmarshal w rawProcFile of
                    None \<Rightarrow> (Inl (ObjectMalformed procfileKey), [])
                  | Some procType \<Rightarrow> (Inr procType, []))))"

subsection \<open>The build\<close>

text \<open>
  \<^verbatim>\<open>build\<close> is one long function that returns at the first error. It is written here as
  a chain of functions, each the rest of \<^verbatim>\<open>build\<close> from some statement on, the last
  part first; a part ends where the source returns or where a \<^verbatim>\<open>defer\<close> statement
  makes the remainder the scope of a deferred call. The variables that are set before
  the first \<^verbatim>\<open>defer\<close> and never change are passed along in one record. The
  variable \<^verbatim>\<open>image\<close> of the source is \<open>imageRef\<close> here.
\<close>

record locals =
  dockerBuilderImagePullPolicy :: PullPolicy
  slugBuilderImagePullPolicy :: PullPolicy
  shortSha :: string
  appName :: string
  repoDir :: string
  slugName :: string
  tmpDir :: string

definition after :: "event list \<Rightarrow> run \<Rightarrow> run" where
  "after evs r = (fst r, evs @ snd r)"

text \<open>
  From \<^verbatim>\<open>quit := progress(...)\<close> to the end: the image of a stack whose name is not
  \<open>container\<close> is the slug object key; \<^verbatim>\<open>hooks.CreateBuild\<close> is called; an error that
  \<^verbatim>\<open>CheckAPICompat\<close> does not absorb ends the build (it is \<open>err\<close> itself, which is what
  \<^verbatim>\<open>CheckAPICompat\<close> returns then); otherwise the release is logged, \<^verbatim>\<open>git gc\<close> runs
  with its result ignored, and nil is returned.
\<close>

definition publish ::
  "Config \<Rightarrow> world \<Rightarrow> locals \<Rightarrow> SlugBuilderInfo \<Rightarrow> (string \<rightharpoonup> string) \<Rightarrow> string
     \<Rightarrow> ProcessType \<Rightarrow> run" where
  "publish conf w l slugBuilderInfo stack imageRef procType =
     (let args = \<lparr> cb_user = Username conf, cb_app = App conf,
                   cb_image = (if index stack ''name'' \<noteq> ''container''
                               then AbsoluteSlugObjectKey slugBuilderInfo else imageRef),
                   cb_stack = index stack ''name'', cb_sha = shortSha l,
                   cb_procType = procType,
                   cb_isContainer = (index stack ''name'' = ''container'') \<rparr>;
          chk = CheckAPICompat (snd (hooks_CreateBuild w args))
      in emit EvProgressStart (emit (EvCreateBuild args) (emit EvProgressQuit
           (case fst chk of
              Some e \<Rightarrow> (Failed (PublishFailed e), snd chk)
            | None \<Rightarrow>
                (Success,
                 snd chk @
                 [EvLog (Deployed (appName l) (fst (hooks_CreateBuild w args))),
                  EvRun (repoDir l) [''git'', ''gc'']])))))"

text \<open>
  The loop over \<^verbatim>\<open>buildPod.Status.ContainerStatuses\<close>: \<open>None\<close> when the loop runs to its
  end, \<open>Some\<close> of the outcome when it leaves \<^verbatim>\<open>build\<close>. Reading \<^verbatim>\<open>state.ExitCode\<close>
  through a nil \<^verbatim>\<open>Terminated\<close> panics.
\<close>

fun exitCodes :: "ContainerStatus list \<Rightarrow> outcome option" where
  "exitCodes [] = None"
| "exitCodes (None # rest) = Some Panicked"
| "exitCodes (Some exitCode # rest) =
     (if exitCode \<noteq> 0 then Some (Failed (BuilderFailed exitCode)) else exitCodes rest)"

definition finishBuild ::
  "Config \<Rightarrow> world \<Rightarrow> locals \<Rightarrow> SlugBuilderInfo \<Rightarrow> (string \<rightharpoonup> string) \<Rightarrow> string
     \<Rightarrow> ContainerStatus list \<Rightarrow> run" where
  "finishBuild conf w l slugBuilderInfo stack imageRef statuses =
     (case exitCodes statuses of
        Some out \<Rightarrow> (out, [])
      | None \<Rightarrow>
          (let r = getProcFile w (tmpDir l) (AbsoluteProcfileKey slugBuilderInfo) stack in
           case fst r of
             Inl f \<Rightarrow> (Failed (ProcfileInvalid f), snd r)
           | Inr procType \<Rightarrow>
               after (snd r) (publish conf w l slugBuilderInfo stack imageRef procType)))"

text \<open>From \<^verbatim>\<open>io.Copy(os.Stdout, rc)\<close> to the fetch of the finished pod.\<close>

definition followPod ::
  "Config \<Rightarrow> world \<Rightarrow> locals \<Rightarrow> SlugBuilderInfo \<Rightarrow> (string \<rightharpoonup> string) \<Rightarrow> string
     \<Rightarrow> string \<Rightarrow> string \<Rightarrow> run" where
  "followPod conf w l slugBuilderInfo stack imageRef ns name =
     emit (EvStreamCopy ns name)
       (case io_Copy w ns name of
          Some e \<Rightarrow> (Failed (FetchingLogsFailed e), [])
        | None \<Rightarrow>
            emit (EvWaitForPodEnd ns name)
              (case waitForPodEnd w ns name of
                 Some e \<Rightarrow> (Failed (PodStatusFailed e), [])
               | None \<Rightarrow>
                   emit (EvGetPod ns name)
                     (case pods_Get w ns name of
                        Inl e \<Rightarrow> (Failed (PodStatusFailed e), [])
                      | Inr statuses \<Rightarrow>
                          finishBuild conf w l slugBuilderInfo stack imageRef statuses)))"

text \<open>
  From the start of the pod watcher to the opening of the log stream;
  \<^verbatim>\<open>defer rc.Close()\<close> covers the rest.
\<close>

definition watchPod ::
  "Config \<Rightarrow> world \<Rightarrow> locals \<Rightarrow> SlugBuilderInfo \<Rightarrow> (string \<rightharpoonup> string) \<Rightarrow> string
     \<Rightarrow> string \<Rightarrow> string \<Rightarrow> run" where
  "watchPod conf w l slugBuilderInfo stack imageRef ns name =
     emit EvWatcherRun (emit (EvWaitForPod ns name)
       (case waitForPod w ns name of
          Some e \<Rightarrow> (Failed (PodStartFailed e), [])
        | None \<Rightarrow>
            emit (EvStreamOpen ns name)
              (case req_Stream w ns name of
                 Some e \<Rightarrow> (Failed (LogStreamFailed e), [])
               | None \<Rightarrow>
                   deferred [EvStreamClose]
                     (followPod conf w l slugBuilderInfo stack imageRef ns name))))"

text \<open>
  \<^verbatim>\<open>podsInterface.Create\<close>; \<^verbatim>\<open>defer close(stopCh)\<close> covers the rest. The pod that the
  API returns has the namespace and the name of the pod that was posted.
\<close>

definition launchPod ::
  "Config \<Rightarrow> world \<Rightarrow> locals \<Rightarrow> SlugBuilderInfo \<Rightarrow> (string \<rightharpoonup> string) \<Rightarrow> string
     \<Rightarrow> string \<Rightarrow> Pod \<Rightarrow> run" where
  "launchPod conf w l slugBuilderInfo stack imageRef buildPodName pod =
     emit (EvCreatePod (PodNamespace conf) pod)
       (case pods_Create w (PodNamespace conf) pod of
          Some e \<Rightarrow> (Failed (PodCreateFailed e), [])
        | None \<Rightarrow>
            deferred [EvWatcherStop]
              (watchPod conf w l slugBuilderInfo stack imageRef (PodNamespace conf)
                 buildPodName))"

text \<open>
  The branch taken when the stack name contains \<open>container\<close>. Off the cluster,
  \<^verbatim>\<open>getRegistryDetails\<close> may rewrite \<open>image\<close>, and the tag is appended; on the cluster
  \<open>image\<close> stays the application name.
\<close>

definition dockerBuild ::
  "Config \<Rightarrow> world \<Rightarrow> locals \<Rightarrow> (string \<rightharpoonup> string) \<Rightarrow> SlugBuilderInfo
     \<Rightarrow> (string \<rightharpoonup> string) \<Rightarrow> (string \<rightharpoonup> string) \<Rightarrow> run" where
  "dockerBuild conf w l appConf slugBuilderInfo stack builderPodNodeSelector =
     (let buildPodName = dockerBuilderPodName (appName l) (shortSha l);
          registryLocation = RegistryLocation conf;
          reg = (if registryLocation \<noteq> ''on-cluster''
                 then (case getRegistryDetails w (appName l) registryLocation
                              (PodNamespace conf) of
                         Inl e \<Rightarrow> Inl e
                       | Inr r \<Rightarrow> Inr (fst r, snd r @ '':git-'' @ shortSha l))
                 else Inr (Map.empty, appName l))
      in after (if registryLocation \<noteq> ''on-cluster''
                then [EvGetRegistryDetails (appName l) registryLocation (PodNamespace conf)]
                else [])
           (case reg of
              Inl e \<Rightarrow> (Failed (RegistryDetailsFailed e), [])
            | Inr r \<Rightarrow>
                launchPod conf w l slugBuilderInfo stack (snd r) buildPodName
                  (DockerBuilderPod
                     \<lparr> dp_debug = Debug conf, dp_name = buildPodName,
                       dp_namespace = PodNamespace conf, dp_env = appConf,
                       dp_tarKey = TarKey slugBuilderInfo, dp_gitShortHash = shortSha l,
                       dp_imageTag = slugName l, dp_storageType = StorageType conf,
                       dp_builderImage = index stack ''image'',
                       dp_registryHost = RegistryHost conf,
                       dp_registryPort = RegistryPort conf,
                       dp_registryEnv =
                         (fst r)(''DRYCC_REGISTRY_LOCATION'' \<mapsto> registryLocation),
                       dp_pullPolicy = dockerBuilderImagePullPolicy l,
                       dp_nodeSelector = builderPodNodeSelector \<rparr>)))"

text \<open>The deferred deletion of the environment secret; its failure is only logged.\<close>

definition deleteEnvSecret :: "world \<Rightarrow> string \<Rightarrow> string \<Rightarrow> event list" where
  "deleteEnvSecret w ns envSecretName =
     EvDeleteSecret ns envSecretName (secrets_Delete w ns envSecretName) #
     (case secrets_Delete w ns envSecretName of
        None \<Rightarrow> []
      | Some e \<Rightarrow> [EvLog (UnableToDeleteSecret envSecretName e)])"

text \<open>The other branch: the slug builder, with its environment secret.\<close>

definition slugBuild ::
  "Config \<Rightarrow> world \<Rightarrow> locals \<Rightarrow> (string \<rightharpoonup> string) \<Rightarrow> SlugBuilderInfo
     \<Rightarrow> (string \<rightharpoonup> string) \<Rightarrow> (string \<rightharpoonup> string) \<Rightarrow> run" where
  "slugBuild conf w l appConf slugBuilderInfo stack builderPodNodeSelector =
     (let buildPodName = slugBuilderPodName (appName l) (shortSha l);
          cacheKey = (if \<not> DisableCaching slugBuilderInfo then CacheKey slugBuilderInfo
                      else []);
          envSecretName = appName l @ ''-build-env'';
          err = createAppEnvConfigSecret w (PodNamespace conf) envSecretName appConf
      in emit (EvCreateSecret (PodNamespace conf) envSecretName err)
           (case err of
              Some e \<Rightarrow> (Failed (SecretFailed envSecretName e), [])
            | None \<Rightarrow>
                deferred (deleteEnvSecret w (PodNamespace conf) envSecretName)
                  (launchPod conf w l slugBuilderInfo stack (appName l) buildPodName
                     (SlugBuilderPod
                        \<lparr> sp_debug = Debug conf, sp_name = buildPodName,
                          sp_namespace = PodNamespace conf, sp_env = appConf,
                          sp_envSecretName = envSecretName,
                          sp_tarKey = TarKey slugBuilderInfo,
                          sp_putKey = PushKey slugBuilderInfo, sp_cacheKey = cacheKey,
                          sp_gitShortHash = shortSha l, sp_storageType = StorageType conf,
                          sp_builderImage = index stack ''image'',
                          sp_pullPolicy = slugBuilderImagePullPolicy l,
                          sp_nodeSelector = builderPodNodeSelector \<rparr>))))"

text \<open>The node selector is parsed, then the kind of builder is chosen.\<close>

definition selectBuilder ::
  "Config \<Rightarrow> world \<Rightarrow> locals \<Rightarrow> (string \<rightharpoonup> string) \<Rightarrow> SlugBuilderInfo
     \<Rightarrow> (string \<rightharpoonup> string) \<Rightarrow> run" where
  "selectBuilder conf w l appConf slugBuilderInfo stack =
     (case buildBuilderPodNodeSelector (BuilderPodNodeSelector conf) of
        Inl f \<Rightarrow> (Failed (ConfigInvalid f), [])
      | Inr builderPodNodeSelector \<Rightarrow>
          if Contains (index stack ''name'') ''container''
          then dockerBuild conf w l appConf slugBuilderInfo stack builderPodNodeSelector
          else slugBuild conf w l appConf slugBuilderInfo stack builderPodNodeSelector)"

text \<open>
  From \<^verbatim>\<open>git archive\<close> to the upload of the tarball. \<^verbatim>\<open>getStack\<close> reads the unpacked
  tree and the application's configuration.
\<close>

definition stageSource ::
  "Config \<Rightarrow> world \<Rightarrow> locals \<Rightarrow> (string \<rightharpoonup> string) \<Rightarrow> SlugBuilderInfo \<Rightarrow> run" where
  "stageSource conf w l appConf slugBuilderInfo =
     (let appTgz = appName l @ ''.tar.gz'';
          gitArchiveCmd = [''git'', ''archive'', ''--format=tar.gz'', ''--output='' @ appTgz,
                           shortSha l];
          absAppTgz = repoDir l @ ''/'' @ appTgz;
          tarCmd = [''tar'', ''-xzf'', appTgz, ''-C'', tmpDir l @ ''/''];
          stack = getStack w (tmpDir l) appConf
      in emit (EvRun (repoDir l) gitArchiveCmd)
           (case cmd_Run w (repoDir l) gitArchiveCmd of
              Some e \<Rightarrow> (Failed (RunFailed gitArchiveCmd e), [])
            | None \<Rightarrow>
                emit (EvRun (repoDir l) tarCmd)
                  (case cmd_Run w (repoDir l) tarCmd of
                     Some e \<Rightarrow> (Failed (RunFailed tarCmd e), [])
                   | None \<Rightarrow>
                       emit (EvGetStack (tmpDir l)) (emit (EvReadFile absAppTgz)
                         (case ioutil_ReadFile w absAppTgz of
                            Inl e \<Rightarrow> (Failed (ReadTarballFailed appTgz e), [])
                          | Inr appTgzdata \<Rightarrow>
                              emit (EvPutContent (TarKey slugBuilderInfo) appTgzdata)
                                (case storage_PutContent w (TarKey slugBuilderInfo)
                                        appTgzdata of
                                   Some e \<Rightarrow>
                                     (Failed (UploadFailed absAppTgz
                                                (TarKey slugBuilderInfo) e), [])
                                 | None \<Rightarrow>
                                     selectBuilder conf w l appConf slugBuilderInfo
                                       stack))))))"

text \<open>
  Caching is disabled when the configuration values have the key
  \<open>DRYCC_DISABLE_CACHE\<close>. Then the cache object is deleted when \<^verbatim>\<open>Stat\<close> returns no
  error; an error of \<^verbatim>\<open>Stat\<close>, of whatever kind, only skips the deletion; an error of
  \<^verbatim>\<open>Delete\<close> is returned.
\<close>

definition invalidateCache ::
  "Config \<Rightarrow> world \<Rightarrow> locals \<Rightarrow> (string \<rightharpoonup> string) \<Rightarrow> run" where
  "invalidateCache conf w l appConf =
     (let slugBuilderInfo =
            NewSlugBuilderInfo (appName l) (shortSha l)
              (appConf ''DRYCC_DISABLE_CACHE'' \<noteq> None)
      in if DisableCaching slugBuilderInfo then
           emit (EvStat (CacheKey slugBuilderInfo))
             (if storage_Stat w (CacheKey slugBuilderInfo) = None then
                emit (EvDelete (CacheKey slugBuilderInfo))
                  (case storage_Delete w (CacheKey slugBuilderInfo) of
                     Some e \<Rightarrow> (Failed (CacheDeleteFailed e), [])
                   | None \<Rightarrow> stageSource conf w l appConf slugBuilderInfo)
              else stageSource conf w l appConf slugBuilderInfo)
         else stageSource conf w l appConf slugBuilderInfo)"

text \<open>
  The controller client and the application's configuration. The build goes on with
  the response when \<^verbatim>\<open>CheckAPICompat\<close> returns nil; otherwise \<open>err\<close> is returned.
\<close>

definition fetchConfig :: "Config \<Rightarrow> world \<Rightarrow> locals \<Rightarrow> run" where
  "fetchConfig conf w l =
     emit (EvControllerNew (ControllerHost conf) (ControllerPort conf))
       (case controller_New w (ControllerHost conf) (ControllerPort conf) of
          Some e \<Rightarrow> (Failed (ControllerNewFailed e), [])
        | None \<Rightarrow>
            (let resp = hooks_GetAppConfig w (Username conf) (appName l);
                 chk = CheckAPICompat (snd resp)
             in emit (EvGetAppConfig (Username conf) (appName l))
                  (case fst chk of
                     Some e \<Rightarrow> (Failed (GetAppConfigFailed e), snd chk)
                   | None \<Rightarrow> after (snd chk) (invalidateCache conf w l (fst resp)))))"

text \<open>The deferred removal of the temporary directory; its failure is only logged.\<close>

definition removeTmpDir :: "world \<Rightarrow> string \<Rightarrow> event list" where
  "removeTmpDir w dir =
     EvRemoveAll dir #
     (case os_RemoveAll w dir of
        None \<Rightarrow> []
      | Some e \<Rightarrow> [EvLog (UnableToRemoveTmpdir dir e)])"

text \<open>
  The start of \<^verbatim>\<open>build\<close>: pull policies, SHA, build directory and temporary directory.
  \<^verbatim>\<open>filepath.Join\<close> is the concatenation with a slash (the paths are not cleaned). The
  parameters \<^verbatim>\<open>storageDriver\<close>, \<^verbatim>\<open>kubeClient\<close>, \<^verbatim>\<open>fs\<close> and \<^verbatim>\<open>env\<close> are the outside
  world; \<^verbatim>\<open>builderKey\<close> is not used by the source. The assignment to
  \<^verbatim>\<open>storagedriver.PathRegexp\<close> and the debug line that pretty-prints the pod
  (\<^verbatim>\<open>prettyPrintJSON\<close>) have no part in the result and are left out.
\<close>

definition build :: "Config \<Rightarrow> world \<Rightarrow> string \<Rightarrow> run" where
  "build conf w rawGitSha =
     (case PullPolicyFromString (DockerBuilderImagePullPolicy conf) of
        Inl f \<Rightarrow> (Failed (ConfigInvalid f), [])
      | Inr dockerPolicy \<Rightarrow>
     (case PullPolicyFromString (SlugBuilderImagePullPolicy conf) of
        Inl f \<Rightarrow> (Failed (ConfigInvalid f), [])
      | Inr slugPolicy \<Rightarrow>
     (case NewSha rawGitSha of
        Inl f \<Rightarrow> (Failed (ConfigInvalid f), [])
      | Inr gitSha \<Rightarrow>
          (let buildDir = GitHome conf @ ''/'' @ Repository conf @ ''/build'' in
           emit (EvMkdirAll buildDir)
             (case os_MkdirAll w buildDir of
                Some e \<Rightarrow> (Failed (MkdirFailed buildDir e), [])
              | None \<Rightarrow>
                  emit (EvTempDir buildDir ''tmp'')
                    (case ioutil_TempDir w buildDir ''tmp'' of
                       Inl e \<Rightarrow> (Failed (TmpDirFailed buildDir e), [])
                     | Inr dir \<Rightarrow>
                         deferred (removeTmpDir w dir)
                           (fetchConfig conf w
                              \<lparr> dockerBuilderImagePullPolicy = dockerPolicy,
                                slugBuilderImagePullPolicy = slugPolicy,
                                shortSha = Short gitSha,
                                appName = App conf,
                                repoDir = GitHome conf @ ''/'' @ Repository conf,
                                slugName = App conf @ '':git-'' @ Short gitSha,
                                tmpDir = dir \<rparr>)))))))"

subsection \<open>Procfile resolution as the specification words it\<close>

text \<open>
  The three rules of the specification, in its order: a Procfile on disk is parsed;
  else a container stack has the empty mapping; else the object at the Procfile key is
  read and decoded. \<open>None\<close> stands for the failure \<open>ProcfileInvalid\<close>. The file is on disk
  when \<^verbatim>\<open>os.Stat\<close> returns no error; a file or an object that cannot be read counts as
  missing.
\<close>

definition procfileResolution ::
  "world \<Rightarrow> string \<Rightarrow> string \<Rightarrow> (string \<rightharpoonup> string) \<Rightarrow> ProcessType option" where
  "procfileResolution w dir procfileKey stack =
     (if os_Stat w (dir @ ''/Procfile'') = None then
        (case ioutil_ReadFile w (dir @ ''/Procfile'') of
           Inl e \<Rightarrow> None
         | Inr text \<Rightarrow> yaml_Unmarshal w text)
      else if index stack ''name'' = ''container'' then Some Map.empty
      else
        (case storage_GetContent w procfileKey of
           Inl e \<Rightarrow> None
         | Inr text \<Rightarrow> yaml_Unmarshal w text))"

subsection \<open>A sample push\<close>

text \<open>
  A configuration, a SHA and a world in which every call succeeds: a buildpack build of
  the application \<open>foo\<close> with a Procfile on disk. The examples below change one call of
  this world at a time.
\<close>

definition conf0 :: Config where
  "conf0 =
     \<lparr> DockerBuilderImagePullPolicy = ''Always'', SlugBuilderImagePullPolicy = ''Always'',
       Repository = ''foo.git'', GitHome = ''/home/git'', App = ''foo'',
       ControllerHost = ''controller'', ControllerPort = ''80'', Username = ''alice'',
       BuilderPodNodeSelector = [], RegistryLocation = ''on-cluster'',
       PodNamespace = ''drycc'', Debug = False, StorageType = ''minio'',
       RegistryHost = ''registry'', RegistryPort = ''5000'' \<rparr>"

definition sha0 :: string where
  "sha0 = ''abc1234500000000000000000000000000000000''"

definition world0 :: world where
  "world0 =
     \<lparr> os_MkdirAll = (\<lambda>dir. None),
       ioutil_TempDir = (\<lambda>dir pat. Inr (dir @ ''/tmp1'')),
       os_RemoveAll = (\<lambda>dir. None),
       controller_New = (\<lambda>host port. None),
       hooks_GetAppConfig = (\<lambda>user app. (Map.empty, None)),
       storage_Stat = (\<lambda>key. Some PathNotFound),
       storage_Delete = (\<lambda>key. None),
       cmd_Run = (\<lambda>dir args. None),
       getStack = (\<lambda>dir vals. [''name'' \<mapsto> ''heroku-18'', ''image'' \<mapsto> ''slugbuilder'']),
       ioutil_ReadFile = (\<lambda>path. Inr ''data''),
       storage_PutContent = (\<lambda>key bytes. None),
       getRegistryDetails = (\<lambda>img loc ns. Inr (Map.empty, ''quay.io/org/'' @ img)),
       createAppEnvConfigSecret = (\<lambda>ns name vals. None),
       secrets_Delete = (\<lambda>ns name. None),
       pods_Create = (\<lambda>ns pod. None),
       waitForPod = (\<lambda>ns name. None),
       req_Stream = (\<lambda>ns name. None),
       io_Copy = (\<lambda>ns name. None),
       waitForPodEnd = (\<lambda>ns name. None),
       pods_Get = (\<lambda>ns name. Inr [Some 0]),
       os_Stat = (\<lambda>path. None),
       storage_GetContent = (\<lambda>key. Inr ''web: run''),
       yaml_Unmarshal = (\<lambda>text. Some [''web'' \<mapsto> ''run'']),
       hooks_CreateBuild = (\<lambda>args. (1, None)) \<rparr>"

subsection \<open>Auxiliary notions for the proofs\<close>

text \<open>
  The entry that a well-formed line \<open>key:value\<close> of the node selector stands for, read
  off the line without splitting it.
\<close>

definition selectorEntry :: "string \<Rightarrow> string \<times> string" where
  "selectorEntry line =
     (TrimSpace (takeWhile (\<lambda>c. c \<noteq> CHR '':'') line),
      TrimSpace (tl (dropWhile (\<lambda>c. c \<noteq> CHR '':'') line)))"

text \<open>
  The last part of \<^verbatim>\<open>build\<close> that can make a call of a given kind, counting the parts
  from the start: 0 up to the fetch of the configuration, 1 the cache, 2 the staging of
  the source, 3 the choice of the builder, 4 the creation of the pod, 5 the watcher and
  the log stream, 6 the wait for the pod's end, 7 the Procfile, 8 the release. A deferred
  call counts for the part that registers it.
\<close>

fun stage :: "event \<Rightarrow> nat" where
  "stage (EvMkdirAll d) = 0"
| "stage (EvTempDir d p) = 0"
| "stage (EvRemoveAll d) = 0"
| "stage (EvControllerNew h p) = 0"
| "stage (EvGetAppConfig u a) = 0"
| "stage (EvStat k) = 1"
| "stage (EvDelete k) = 1"
| "stage (EvRun d args) = 8"
| "stage (EvGetStack d) = 2"
| "stage (EvReadFile f) = 7"
| "stage (EvPutContent k b) = 2"
| "stage (EvGetRegistryDetails i loc ns) = 3"
| "stage (EvCreateSecret ns n r) = 3"
| "stage (EvDeleteSecret ns n r) = 3"
| "stage (EvCreatePod ns p) = 4"
| "stage EvWatcherRun = 5"
| "stage EvWatcherStop = 5"
| "stage (EvWaitForPod ns n) = 5"
| "stage (EvStreamOpen ns n) = 5"
| "stage (EvStreamCopy ns n) = 6"
| "stage EvStreamClose = 5"
| "stage (EvWaitForPodEnd ns n) = 6"
| "stage (EvGetPod ns n) = 6"
| "stage (EvOsStat f) = 7"
| "stage (EvGetContent k) = 7"
| "stage EvProgressStart = 8"
| "stage EvProgressQuit = 8"
| "stage (EvCreateBuild a) = 8"
| "stage (EvLog WarnAPIMismatch) = 8"
| "stage (EvLog (UnableToRemoveTmpdir d e)) = 0"
| "stage (EvLog (UnableToDeleteSecret n e)) = 3"
| "stage (EvLog (Deployed a r)) = 8"

definition isCreatePod :: "event \<Rightarrow> bool" where
  "isCreatePod e = (case e of EvCreatePod ns p \<Rightarrow> True | _ \<Rightarrow> False)"

text \<open>
  The part of \<^verbatim>\<open>build\<close> in which a call of a given kind can first be made: 0 before the
  builder is chosen, 1 from there to the opening of the log stream, 2 afterwards.
\<close>

fun region :: "event \<Rightarrow> nat" where
  "region (EvMkdirAll d) = 0"
| "region (EvTempDir d p) = 0"
| "region (EvRemoveAll d) = 0"
| "region (EvControllerNew h p) = 0"
| "region (EvGetAppConfig u a) = 0"
| "region (EvStat k) = 0"
| "region (EvDelete k) = 0"
| "region (EvRun d args) = 0"
| "region (EvGetStack d) = 0"
| "region (EvReadFile f) = 0"
| "region (EvPutContent k b) = 0"
| "region (EvGetRegistryDetails i loc ns) = 1"
| "region (EvCreateSecret ns n r) = 1"
| "region (EvDeleteSecret ns n r) = 1"
| "region (EvCreatePod ns p) = 1"
| "region EvWatcherRun = 1"
| "region EvWatcherStop = 1"
| "region (EvWaitForPod ns n) = 1"
| "region (EvStreamOpen ns n) = 1"
| "region (EvStreamCopy ns n) = 2"
| "region EvStreamClose = 1"
| "region (EvWaitForPodEnd ns n) = 2"
| "region (EvGetPod ns n) = 2"
| "region (EvOsStat f) = 2"
| "region (EvGetContent k) = 2"
| "region EvProgressStart = 2"
| "region EvProgressQuit = 2"
| "region (EvCreateBuild a) = 2"
| "region (EvLog WarnAPIMismatch) = 0"
| "region (EvLog (UnableToRemoveTmpdir d e)) = 0"
| "region (EvLog (UnableToDeleteSecret n e)) = 1"
| "region (EvLog (Deployed a r)) = 2"

text \<open>
  A property of runs is closed under the events of a kind \<open>K\<close> when it holds of every
  failure that made only such calls, and is kept when such calls are put before and
  after a run.
\<close>

definition closedUnder :: "(event \<Rightarrow> bool) \<Rightarrow> (run \<Rightarrow> bool) \<Rightarrow> bool" where
  "closedUnder K P \<longleftrightarrow>
     (\<forall>x evs. list_all K evs \<longrightarrow> P (Failed x, evs)) \<and>
     (\<forall>pre post r. list_all K pre \<longrightarrow> list_all K post \<longrightarrow> P r
        \<longrightarrow> P (fst r, pre @ snd r @ post))"

text \<open>
  What holds of the variables of \<^verbatim>\<open>build\<close> when the builder is chosen, and of the image
  and the pod name when the pod is followed.
\<close>

definition staged ::
  "Config \<Rightarrow> world \<Rightarrow> string \<Rightarrow> locals \<Rightarrow> (string \<rightharpoonup> string) \<Rightarrow> SlugBuilderInfo
     \<Rightarrow> (string \<rightharpoonup> string) \<Rightarrow> bool" where
  "staged conf w raw l appConf sbi stack \<longleftrightarrow>
     PullPolicyFromString (DockerBuilderImagePullPolicy conf)
       = Inr (dockerBuilderImagePullPolicy l) \<and>
     PullPolicyFromString (SlugBuilderImagePullPolicy conf)
       = Inr (slugBuilderImagePullPolicy l) \<and>
     NewSha raw = Inr raw \<and>
     shortSha l = Short raw \<and>
     appName l = App conf \<and>
     repoDir l = GitHome conf @ ''/'' @ Repository conf \<and>
     slugName l = App conf @ '':git-'' @ Short raw \<and>
     ioutil_TempDir w (GitHome conf @ ''/'' @ Repository conf @ ''/build'') ''tmp''
       = Inr (tmpDir l) \<and>
     appConf = fst (hooks_GetAppConfig w (Username conf) (App conf)) \<and>
     sbi = NewSlugBuilderInfo (App conf) (Short raw) (appConf ''DRYCC_DISABLE_CACHE'' \<noteq> None) \<and>
     stack = getStack w (tmpDir l) appConf"

definition launched ::
  "Config \<Rightarrow> world \<Rightarrow> locals \<Rightarrow> (string \<rightharpoonup> string) \<Rightarrow> string \<Rightarrow> string \<Rightarrow> bool" where
  "launched conf w l stack img name \<longleftrightarrow>
     (if Contains (index stack ''name'') ''container''
      then name = dockerBuilderPodName (appName l) (shortSha l) \<and>
           (if RegistryLocation conf \<noteq> ''on-cluster''
            then \<exists>r. getRegistryDetails w (appName l) (RegistryLocation conf)
                        (PodNamespace conf) = Inr r \<and>
                      img = snd r @ '':git-'' @ shortSha l
            else img = appName l)
      else name = slugBuilderPodName (appName l) (shortSha l) \<and> img = appName l)"

text \<open>The arguments with which \<open>publish\<close> calls \<^verbatim>\<open>hooks.CreateBuild\<close>.\<close>

definition releaseArgs ::
  "Config \<Rightarrow> locals \<Rightarrow> SlugBuilderInfo \<Rightarrow> (string \<rightharpoonup> string) \<Rightarrow> string \<Rightarrow> ProcessType
     \<Rightarrow> CreateBuildArgs" where
  "releaseArgs conf l sbi stack img pt =
     \<lparr> cb_user = Username conf, cb_app = App conf,
       cb_image = (if index stack ''name'' \<noteq> ''container''
                   then AbsoluteSlugObjectKey sbi else img),
       cb_stack = index stack ''name'', cb_sha = shortSha l, cb_procType = pt,
       cb_isContainer = (index stack ''name'' = ''container'') \<rparr>"

section \<open>Proofs\<close>

subsection \<open>Traces\<close>

lemma fst_emit [simp]: "fst (emit e r) = fst r"
  by (simp add: emit_def)

lemma snd_emit [simp]: "snd (emit e r) = e # snd r"
  by (simp add: emit_def)

lemma emit_pair [simp]: "emit e (a, evs) = (a, e # evs)"
  by (simp add: emit_def)

lemma fst_after [simp]: "fst (after evs r) = fst r"
  by (simp add: after_def)

lemma snd_after [simp]: "snd (after evs r) = evs @ snd r"
  by (simp add: after_def)

lemma fst_deferred [simp]: "fst (deferred evs r) = fst r"
  by (simp add: deferred_def)

lemma snd_deferred [simp]: "snd (deferred evs r) = snd r @ evs"
  by (simp add: deferred_def)

lemma createdPods_append [simp]: "createdPods (xs @ ys) = createdPods xs @ createdPods ys"
  by (induction xs rule: createdPods.induct) auto

lemma createBuildCalls_append [simp]:
  "createBuildCalls (xs @ ys) = createBuildCalls xs @ createBuildCalls ys"
  by (induction xs rule: createBuildCalls.induct) auto

lemma secretsAfter_Nil [simp]: "secretsAfter S [] = S"
  by (simp add: secretsAfter_def)

lemma secretsAfter_Cons [simp]: "secretsAfter S (e # tr) = secretsAfter (secretsStep S e) tr"
  by (simp add: secretsAfter_def)

lemma secretsAfter_append [simp]:
  "secretsAfter S (xs @ ys) = secretsAfter (secretsAfter S xs) ys"
  by (simp add: secretsAfter_def)

lemma precededBy_append:
  "precededBy P Q (xs @ ys) \<longleftrightarrow>
     precededBy P Q xs \<and> ((\<exists>e \<in> set xs. P e) \<or> precededBy P Q ys)"
  by (induction xs) auto

lemma createdPods_late: "\<forall>e \<in> set tr. 4 < stage e \<Longrightarrow> createdPods tr = []"
  by (induction tr rule: createdPods.induct) auto

lemma createdPods_early: "\<forall>e \<in> set tr. stage e < 4 \<Longrightarrow> createdPods tr = []"
  by (induction tr rule: createdPods.induct) auto

lemma createBuildCalls_early: "\<forall>e \<in> set tr. stage e < 8 \<Longrightarrow> createBuildCalls tr = []"
  by (induction tr rule: createBuildCalls.induct) auto

lemma secretsStep_late: "3 < stage e \<Longrightarrow> secretsStep S e = S"
  by (cases "(S, e)" rule: secretsStep.cases) auto

lemma secretsAfter_late: "\<forall>e \<in> set tr. 3 < stage e \<Longrightarrow> secretsAfter S tr = S"
  by (induction tr arbitrary: S) (auto simp: secretsStep_late)

lemma precededBy_late: "\<forall>e \<in> set tr. 4 < stage e \<Longrightarrow> precededBy P isCreatePod tr"
  by (induction tr) (auto simp: isCreatePod_def split: event.splits)

lemma Contains_container: "\<not> Contains s ''container'' \<Longrightarrow> s \<noteq> ''container''"
  by auto

subsection \<open>The calls that each part of the build can make\<close>

lemmas upper_defs = build_def fetchConfig_def invalidateCache_def stageSource_def

lemmas middle_defs = selectBuilder_def dockerBuild_def slugBuild_def launchPod_def watchPod_def

lemmas lower_defs = followPod_def finishBuild_def

lemma CheckAPICompat_mem [simp]:
  "e \<in> set (snd (CheckAPICompat err)) \<longleftrightarrow> e = EvLog WarnAPIMismatch \<and> err = Some ErrAPIMismatch"
  by (simp add: CheckAPICompat_def)

lemma CheckAPICompat_fst:
  "fst (CheckAPICompat err) = (if err = Some ErrAPIMismatch then None else err)"
  by (simp add: CheckAPICompat_def)

lemma CheckAPICompat_pods [simp]: "createdPods (snd (CheckAPICompat err)) = []"
  by (simp add: CheckAPICompat_def)

lemma CheckAPICompat_calls [simp]: "createBuildCalls (snd (CheckAPICompat err)) = []"
  by (simp add: CheckAPICompat_def)

lemma CheckAPICompat_secrets [simp]: "secretsAfter S (snd (CheckAPICompat err)) = S"
  by (simp add: CheckAPICompat_def)

lemma removeTmpDir_mem:
  "e \<in> set (removeTmpDir w d) \<longleftrightarrow>
     e = EvRemoveAll d \<or> (\<exists>x. os_RemoveAll w d = Some x \<and> e = EvLog (UnableToRemoveTmpdir d x))"
  by (auto simp add: removeTmpDir_def split: option.splits)

lemma removeTmpDir_pods [simp]: "createdPods (removeTmpDir w d) = []"
  by (simp add: removeTmpDir_def split: option.splits)

lemma removeTmpDir_calls [simp]: "createBuildCalls (removeTmpDir w d) = []"
  by (simp add: removeTmpDir_def split: option.splits)

lemma removeTmpDir_secrets [simp]: "secretsAfter S (removeTmpDir w d) = S"
  by (simp add: removeTmpDir_def split: option.splits)

lemma getProcFile_mem:
  "e \<in> set (snd (getProcFile w d k stack)) \<Longrightarrow>
     e = EvOsStat (d @ ''/Procfile'') \<or> e = EvReadFile (d @ ''/Procfile'') \<or> e = EvGetContent k"
  by (auto simp add: getProcFile_def split: if_splits sum.splits option.splits)

lemma getProcFile_stage: "e \<in> set (snd (getProcFile w d k stack)) \<Longrightarrow> stage e = 7"
  by (auto dest: getProcFile_mem)

lemma getProcFile_calls [simp]: "createBuildCalls (snd (getProcFile w d k stack)) = []"
  by (rule createBuildCalls_early) (auto dest: getProcFile_stage)

lemma publish_stage: "e \<in> set (snd (publish conf w l sbi stack img pt)) \<Longrightarrow> stage e = 8"
  by (auto simp add: publish_def Let_def split: option.splits)

lemma finishBuild_stage:
  "e \<in> set (snd (finishBuild conf w l sbi stack img sts)) \<Longrightarrow> 7 \<le> stage e"
  by (auto simp add: finishBuild_def Let_def split: option.splits sum.splits
        dest: getProcFile_stage publish_stage)

lemma followPod_stage:
  "e \<in> set (snd (followPod conf w l sbi stack img ns name)) \<Longrightarrow> 6 \<le> stage e"
  by (auto simp add: followPod_def split: option.splits sum.splits dest: finishBuild_stage)

lemma watchPod_stage:
  "e \<in> set (snd (watchPod conf w l sbi stack img ns name)) \<Longrightarrow> 5 \<le> stage e"
  by (auto simp add: watchPod_def split: option.splits dest: followPod_stage)

lemma launchPod_stage:
  "e \<in> set (snd (launchPod conf w l sbi stack img name pod)) \<Longrightarrow> 4 \<le> stage e"
  by (auto simp add: launchPod_def split: option.splits dest: watchPod_stage)

lemma deleteEnvSecret_stage: "e \<in> set (deleteEnvSecret w ns n) \<Longrightarrow> stage e = 3"
  by (auto simp add: deleteEnvSecret_def split: option.splits)

lemma selectBuilder_stage:
  "e \<in> set (snd (selectBuilder conf w l appConf sbi stack)) \<Longrightarrow> 3 \<le> stage e"
  by (auto simp add: selectBuilder_def dockerBuild_def slugBuild_def Let_def
        split: option.splits sum.splits if_splits
        dest: launchPod_stage deleteEnvSecret_stage)

lemma stageSource_stage:
  "e \<in> set (snd (stageSource conf w l appConf sbi)) \<Longrightarrow> 2 \<le> stage e"
  by (auto simp add: stageSource_def Let_def split: option.splits sum.splits
        dest: selectBuilder_stage)

lemma invalidateCache_stage:
  "e \<in> set (snd (invalidateCache conf w l appConf)) \<Longrightarrow> 1 \<le> stage e"
  by (auto simp add: invalidateCache_def Let_def split: option.splits if_splits
        dest: stageSource_stage)

lemma launchPod_not_before [simp]:
  "stage e < 4 \<Longrightarrow> e \<notin> set (snd (launchPod conf w l sbi stack img name pod))"
  by (auto dest: launchPod_stage)

lemma selectBuilder_not_before [simp]:
  "stage e < 3 \<Longrightarrow> e \<notin> set (snd (selectBuilder conf w l appConf sbi stack))"
  by (auto dest: selectBuilder_stage)

lemma stageSource_not_before [simp]:
  "stage e < 2 \<Longrightarrow> e \<notin> set (snd (stageSource conf w l appConf sbi))"
  by (auto dest: stageSource_stage)

lemma invalidateCache_not_before [simp]:
  "stage e < 1 \<Longrightarrow> e \<notin> set (snd (invalidateCache conf w l appConf))"
  by (auto dest: invalidateCache_stage)

subsection \<open>Node selector\<close>

lemma Split_nonempty: "Split s c \<noteq> []"
  by (induction s) auto

lemma length_Split: "length (Split s c) = Suc (count_list s c)"
  by (induction s) (auto simp: Split_nonempty)

lemma Split_no_sep: "c \<notin> set s \<Longrightarrow> Split s c = [s]"
  by (induction s) auto

lemma Split_one_sep:
  "count_list s c = 1 \<Longrightarrow>
   Split s c = [takeWhile (\<lambda>x. x \<noteq> c) s, tl (dropWhile (\<lambda>x. x \<noteq> c) s)]"
proof (induction s)
  case Nil
  then show ?case by simp
next
  case (Cons x s)
  show ?case
  proof (cases "x = c")
    case True
    with Cons.prems have "count_list s c = 0" by simp
    then have "c \<notin> set s" by (simp add: count_list_0_iff)
    with True show ?thesis by (simp add: Split_no_sep)
  next
    case False
    with Cons.prems have "count_list s c = 1" by simp
    with Cons.IH False show ?thesis by simp
  qed
qed

lemma selectorLines_result:
  "selectorLines config ls sel =
     (if \<exists>line \<in> set ls. count_list line (CHR '':'') \<noteq> 1 then Inl (BadNodeSelector config)
      else Inr (sel ++ map_of (rev (map selectorEntry ls))))"
proof (induction ls arbitrary: sel)
  case Nil
  then show ?case by simp
next
  case (Cons line ls)
  show ?case
  proof (cases "count_list line (CHR '':'') = 1")
    case True
    then have "Split line (CHR '':'') =
        [takeWhile (\<lambda>x. x \<noteq> CHR '':'') line, tl (dropWhile (\<lambda>x. x \<noteq> CHR '':'') line)]"
      by (rule Split_one_sep)
    moreover have "sel(k \<mapsto> v) ++ m = sel ++ ([k \<mapsto> v] ++ m)"
      for k v and m :: "string \<rightharpoonup> string"
      by (rule ext) (simp add: map_add_def split: option.splits)
    ultimately show ?thesis using True Cons.IH
      by (simp add: Let_def selectorEntry_def)
  next
    case False
    then show ?thesis by (simp add: Let_def length_Split)
  qed
qed

lemma selector_examples:
  "buildBuilderPodNodeSelector ''a:1,b:2'' = Inr [''a'' \<mapsto> ''1'', ''b'' \<mapsto> ''2'']"
  "buildBuilderPodNodeSelector '' a : 1 , b:2 '' = Inr [''a'' \<mapsto> ''1'', ''b'' \<mapsto> ''2'']"
  "buildBuilderPodNodeSelector ''a:1,b'' = Inl (BadNodeSelector ''a:1,b'')"
  "buildBuilderPodNodeSelector [] = Inr Map.empty"
  by (simp_all add: buildBuilderPodNodeSelector_def TrimSpace_def TrimLeftSpace_def
        TrimRightSpace_def spaceRunes_def)

lemma selector_unicode:
  "buildBuilderPodNodeSelector (''a:'' @ [CHR 0xC2, CHR 0xA0] @ ''1'') = Inr [''a'' \<mapsto> ''1'']"
  "buildBuilderPodNodeSelector ([CHR 0xE2, CHR 0x80, CHR 0x83] @ ''k:v'' @ [CHR 0xE3, CHR 0x80, CHR 0x80])
     = Inr [''k'' \<mapsto> ''v'']"
  "buildBuilderPodNodeSelector (''a: '' @ [CHR 0xC3, CHR 0xA9, CHR 0xA0]) =
     Inr [''a'' \<mapsto> [CHR 0xC3, CHR 0xA9, CHR 0xA0]]"
  by (simp_all add: buildBuilderPodNodeSelector_def TrimSpace_def TrimLeftSpace_def
        TrimRightSpace_def spaceRunes_def)

lemma selector_general:
  "buildBuilderPodNodeSelector config =
     (if config \<noteq> [] \<and>
         (\<exists>line \<in> set (Split config (CHR '','')). count_list line (CHR '':'') \<noteq> 1)
      then Inl (BadNodeSelector config)
      else Inr (map_of (rev (map selectorEntry
                  (if config = [] then [] else Split config (CHR '','')))))) "
  by (simp add: buildBuilderPodNodeSelector_def selectorLines_result)

lemma selectBuilder_bad_selector:
  "buildBuilderPodNodeSelector (BuilderPodNodeSelector conf) = Inl f \<Longrightarrow>
   selectBuilder conf w l appConf sbi stack = (Failed (ConfigInvalid f), [])"
  by (simp add: selectBuilder_def)

lemma build_bad_selector:
  assumes "buildBuilderPodNodeSelector (BuilderPodNodeSelector conf) = Inl f"
  shows "fst (build conf w raw) \<noteq> Success"
    and "createdPods (snd (build conf w raw)) = []"
    and "createBuildCalls (snd (build conf w raw)) = []"
  using assms
  by (simp_all add: upper_defs selectBuilder_bad_selector Let_def removeTmpDir_mem
        split: sum.split option.split)

lemma build_bad_selector_upload:
  assumes "buildBuilderPodNodeSelector (BuilderPodNodeSelector conf) = Inl f"
  shows "EvPutContent k b \<notin> set (snd (build conf w raw)) \<or> storage_PutContent w k b \<noteq> None
         \<or> fst (build conf w raw) = Failed (ConfigInvalid f)"
  using assms
  by (simp add: upper_defs selectBuilder_bad_selector Let_def removeTmpDir_mem
        split: sum.split option.split)

text \<open>
  C7. The selector string \<open>a:1,b:2\<close> parses to the map of \<open>a\<close> to \<open>1\<close> and \<open>b\<close> to \<open>2\<close>, also
  with white space around keys and values; \<open>a:1,b\<close> is an error; the empty string is
  the empty map. White space beyond ASCII is trimmed as well: a no-break space (U+00A0)
  before the value, an em space (U+2003) before the key and an ideographic space
  (U+3000) after the value go, while a value that ends with a stray byte \<open>A0\<close> after
  \<open>U+00E9\<close> is kept whole. In general a non-empty string is an error exactly when one of its
  comma-separated lines does not have exactly one colon, and otherwise each line binds
  its trimmed key to its trimmed value (a later line overrides an earlier one). A build
  whose selector is malformed never succeeds, creates no pod and publishes nothing; once
  the tarball is uploaded it fails with the invalid-configuration error.
\<close>

theorem C7_node_selector:
  "buildBuilderPodNodeSelector ''a:1,b:2'' = Inr [''a'' \<mapsto> ''1'', ''b'' \<mapsto> ''2''] \<and>
   buildBuilderPodNodeSelector '' a : 1 , b:2 '' = Inr [''a'' \<mapsto> ''1'', ''b'' \<mapsto> ''2''] \<and>
   buildBuilderPodNodeSelector ''a:1,b'' = Inl (BadNodeSelector ''a:1,b'') \<and>
   buildBuilderPodNodeSelector [] = Inr Map.empty \<and>
   buildBuilderPodNodeSelector (''a:'' @ [CHR 0xC2, CHR 0xA0] @ ''1'') = Inr [''a'' \<mapsto> ''1''] \<and>
   buildBuilderPodNodeSelector
     ([CHR 0xE2, CHR 0x80, CHR 0x83] @ ''k:v'' @ [CHR 0xE3, CHR 0x80, CHR 0x80])
     = Inr [''k'' \<mapsto> ''v''] \<and>
   buildBuilderPodNodeSelector (''a: '' @ [CHR 0xC3, CHR 0xA9, CHR 0xA0]) =
     Inr [''a'' \<mapsto> [CHR 0xC3, CHR 0xA9, CHR 0xA0]] \<and>
   buildBuilderPodNodeSelector config =
     (if config \<noteq> [] \<and>
         (\<exists>line \<in> set (Split config (CHR '','')). count_list line (CHR '':'') \<noteq> 1)
      then Inl (BadNodeSelector config)
      else Inr (map_of (rev (map selectorEntry
                  (if config = [] then [] else Split config (CHR '','')))))) \<and>
   (buildBuilderPodNodeSelector (BuilderPodNodeSelector conf) = Inl f \<longrightarrow>
      fst (build conf w raw) \<noteq> Success \<and>
      createdPods (snd (build conf w raw)) = [] \<and>
      createBuildCalls (snd (build conf w raw)) = [] \<and>
      (EvPutContent k b \<in> set (snd (build conf w raw)) \<and> storage_PutContent w k b = None
         \<longrightarrow> fst (build conf w raw) = Failed (ConfigInvalid f)))"
  using selector_examples selector_unicode selector_general [of config]
    build_bad_selector [of conf f, where w = w and raw = raw]
    build_bad_selector_upload [of conf f k b w raw]
  by blast

lemmas sample_defs = conf0_def world0_def sha0_def PullPolicyFromString_def NewSha_def
  Short_def isHex_def NewSlugBuilderInfo_def index_def dockerBuilderPodName_def
  slugBuilderPodName_def

lemmas run_defs = build_def fetchConfig_def invalidateCache_def stageSource_def
  selectBuilder_def dockerBuild_def slugBuild_def launchPod_def watchPod_def followPod_def
  finishBuild_def publish_def getProcFile_def CheckAPICompat_def removeTmpDir_def
  deleteEnvSecret_def emit_def after_def deferred_def buildBuilderPodNodeSelector_def
  TrimSpace_def TrimLeftSpace_def TrimRightSpace_def spaceRunes_def Let_def

theorem C7_witness:
  "buildBuilderPodNodeSelector ''zone : east'' = Inr [''zone'' \<mapsto> ''east''] \<and>
   buildBuilderPodNodeSelector ''a:1,b'' = Inl (BadNodeSelector ''a:1,b'') \<and>
   EvPutContent ''home/foo:git-abc12345/tar'' ''data''
     \<in> set (snd (build (conf0\<lparr>BuilderPodNodeSelector := ''a:1,b''\<rparr>) world0 sha0)) \<and>
   fst (build (conf0\<lparr>BuilderPodNodeSelector := ''a:1,b''\<rparr>) world0 sha0) =
     Failed (ConfigInvalid (BadNodeSelector ''a:1,b''))"
proof -
  let ?conf = "conf0\<lparr>BuilderPodNodeSelector := ''a:1,b''\<rparr>"
  have bad: "buildBuilderPodNodeSelector (BuilderPodNodeSelector ?conf) =
      Inl (BadNodeSelector ''a:1,b'')"
    by (simp add: conf0_def buildBuilderPodNodeSelector_def)
  have put: "EvPutContent ''home/foo:git-abc12345/tar'' ''data''
      \<in> set (snd (build ?conf world0 sha0))"
    by (simp add: run_defs sample_defs)
  have ok: "storage_PutContent world0 ''home/foo:git-abc12345/tar'' ''data'' = None"
    by (simp add: world0_def)
  have entry: "map_of (rev (map selectorEntry (Split ''zone : east'' (CHR '','')))) =
      [''zone'' \<mapsto> ''east'']"
    by (simp add: selectorEntry_def TrimSpace_def TrimLeftSpace_def TrimRightSpace_def spaceRunes_def)
  from C7_node_selector [of "''zone : east''" ?conf "BadNodeSelector ''a:1,b''" world0 sha0
      "''home/foo:git-abc12345/tar''" "''data''"] bad put ok entry
  show ?thesis by simp
qed

subsection \<open>Procfile\<close>

lemma getProcFile_on_disk:
  "os_Stat w (dir @ ''/Procfile'') = None \<Longrightarrow>
   getProcFile w dir key stack =
     ((case ioutil_ReadFile w (dir @ ''/Procfile'') of
         Inl e \<Rightarrow> Inl (LocalUnreadable dir e)
       | Inr text \<Rightarrow>
           (case yaml_Unmarshal w text of
              None \<Rightarrow> Inl (LocalMalformed dir)
            | Some p \<Rightarrow> Inr p)),
      [EvOsStat (dir @ ''/Procfile''), EvReadFile (dir @ ''/Procfile'')])"
  by (simp add: getProcFile_def emit_def split: sum.split option.split)

lemma getProcFile_container:
  "os_Stat w (dir @ ''/Procfile'') \<noteq> None \<Longrightarrow> index stack ''name'' = ''container'' \<Longrightarrow>
   getProcFile w dir key stack = (Inr Map.empty, [EvOsStat (dir @ ''/Procfile'')])"
  by (simp add: getProcFile_def emit_def)

lemma getProcFile_object:
  "os_Stat w (dir @ ''/Procfile'') \<noteq> None \<Longrightarrow> index stack ''name'' \<noteq> ''container'' \<Longrightarrow>
   getProcFile w dir key stack =
     ((case storage_GetContent w key of
         Inl e \<Rightarrow> Inl (ObjectUnreadable key e)
       | Inr text \<Rightarrow>
           (case yaml_Unmarshal w text of
              None \<Rightarrow> Inl (ObjectMalformed key)
            | Some p \<Rightarrow> Inr p)),
      [EvOsStat (dir @ ''/Procfile''), EvGetContent key])"
  by (simp add: getProcFile_def emit_def split: sum.split option.split)

lemma getProcFile_resolution:
  "(case fst (getProcFile w dir key stack) of Inl f \<Rightarrow> None | Inr p \<Rightarrow> Some p) =
     procfileResolution w dir key stack"
proof (cases "os_Stat w (dir @ ''/Procfile'') = None")
  case True
  then show ?thesis
    by (simp add: getProcFile_on_disk procfileResolution_def split: sum.split option.split)
next
  case False
  then show ?thesis
    by (cases "index stack ''name'' = ''container''")
      (auto simp add: getProcFile_container getProcFile_object procfileResolution_def
         split: sum.split option.split)
qed

lemma finishBuild_procfile_invalid:
  "exitCodes sts = None \<Longrightarrow>
   fst (getProcFile w (tmpDir l) (AbsoluteProcfileKey sbi) stack) = Inl f \<Longrightarrow>
   fst (finishBuild conf w l sbi stack img sts) = Failed (ProcfileInvalid f) \<and>
   createBuildCalls (snd (finishBuild conf w l sbi stack img sts)) = []"
  by (simp add: finishBuild_def Let_def)

text \<open>
  C6. \<^verbatim>\<open>getProcFile\<close> follows the three rules of the specification in their order:
  its result, with every failure read as \<open>ProcfileInvalid\<close>, is the resolution the
  specification describes. A Procfile on disk is read and decoded and object storage is
  not touched; without one, a container stack yields the empty mapping at once; otherwise
  the object at the Procfile key is fetched and decoded. A failure names what was
  unreadable or malformed, and in the build it becomes the error \<open>ProcfileInvalid\<close> with
  no release published.
\<close>

theorem C6_procfile_resolution:
  "(case fst (getProcFile w dir key stack) of Inl f \<Rightarrow> None | Inr p \<Rightarrow> Some p) =
     procfileResolution w dir key stack \<and>
   (os_Stat w (dir @ ''/Procfile'') = None \<longrightarrow>
      getProcFile w dir key stack =
        ((case ioutil_ReadFile w (dir @ ''/Procfile'') of
            Inl e \<Rightarrow> Inl (LocalUnreadable dir e)
          | Inr text \<Rightarrow>
              (case yaml_Unmarshal w text of
                 None \<Rightarrow> Inl (LocalMalformed dir)
               | Some p \<Rightarrow> Inr p)),
         [EvOsStat (dir @ ''/Procfile''), EvReadFile (dir @ ''/Procfile'')])) \<and>
   (os_Stat w (dir @ ''/Procfile'') \<noteq> None \<and> index stack ''name'' = ''container'' \<longrightarrow>
      getProcFile w dir key stack = (Inr Map.empty, [EvOsStat (dir @ ''/Procfile'')])) \<and>
   (os_Stat w (dir @ ''/Procfile'') \<noteq> None \<and> index stack ''name'' \<noteq> ''container'' \<longrightarrow>
      getProcFile w dir key stack =
        ((case storage_GetContent w key of
            Inl e \<Rightarrow> Inl (ObjectUnreadable key e)
          | Inr text \<Rightarrow>
              (case yaml_Unmarshal w text of
                 None \<Rightarrow> Inl (ObjectMalformed key)
               | Some p \<Rightarrow> Inr p)),
         [EvOsStat (dir @ ''/Procfile''), EvGetContent key])) \<and>
   (exitCodes sts = None \<and>
    fst (getProcFile w (tmpDir l) (AbsoluteProcfileKey sbi) stack) = Inl f \<longrightarrow>
      fst (finishBuild conf w l sbi stack img sts) = Failed (ProcfileInvalid f) \<and>
      createBuildCalls (snd (finishBuild conf w l sbi stack img sts)) = [])"
  using getProcFile_resolution [of w dir key stack] getProcFile_on_disk [of w dir key stack]
    getProcFile_container [of w dir stack key] getProcFile_object [of w dir stack key]
    finishBuild_procfile_invalid [of sts w l sbi stack f conf img]
  by blast

theorem C6_witness:
  "getProcFile world0 ''/t'' ''k'' Map.empty =
     (Inr [''web'' \<mapsto> ''run''], [EvOsStat ''/t/Procfile'', EvReadFile ''/t/Procfile'']) \<and>
   getProcFile (world0\<lparr>os_Stat := (\<lambda>p. Some ''no such file'')\<rparr>) ''/t'' ''k''
       [''name'' \<mapsto> ''container''] =
     (Inr Map.empty, [EvOsStat ''/t/Procfile'']) \<and>
   getProcFile (world0\<lparr>os_Stat := (\<lambda>p. Some ''no such file''),
                       storage_GetContent := (\<lambda>k. Inl PathNotFound)\<rparr>) ''/t'' ''k'' Map.empty =
     (Inl (ObjectUnreadable ''k'' PathNotFound), [EvOsStat ''/t/Procfile'', EvGetContent ''k''])"
  using C6_procfile_resolution [of world0 "''/t''" "''k''" Map.empty]
    C6_procfile_resolution [of "world0\<lparr>os_Stat := (\<lambda>p. Some ''no such file'')\<rparr>" "''/t''"
      "''k''" "[''name'' \<mapsto> ''container'']"]
    C6_procfile_resolution [of "world0\<lparr>os_Stat := (\<lambda>p. Some ''no such file''),
      storage_GetContent := (\<lambda>k. Inl PathNotFound)\<rparr>" "''/t''" "''k''" Map.empty]
  by (simp add: world0_def index_def)


subsection \<open>Reasoning along the build\<close>

lemma closed_stop: "closedUnder K P \<Longrightarrow> list_all K evs \<Longrightarrow> P (Failed x, evs)"
  by (simp add: closedUnder_def)

lemma closed_wrap:
  "closedUnder K P \<Longrightarrow> list_all K pre \<Longrightarrow> list_all K post \<Longrightarrow> P r
     \<Longrightarrow> P (fst r, pre @ snd r @ post)"
  by (simp add: closedUnder_def)

lemma closed_emit: "closedUnder K P \<Longrightarrow> K e \<Longrightarrow> P r \<Longrightarrow> P (emit e r)"
  using closed_wrap [of K P "[e]" "[]" r] by (simp add: emit_def)

lemma closed_after: "closedUnder K P \<Longrightarrow> list_all K evs \<Longrightarrow> P r \<Longrightarrow> P (after evs r)"
  using closed_wrap [of K P evs "[]" r] by (simp add: after_def)

lemma closed_deferred: "closedUnder K P \<Longrightarrow> list_all K evs \<Longrightarrow> P r \<Longrightarrow> P (deferred evs r)"
  using closed_wrap [of K P "[]" evs r] by (simp add: deferred_def)

lemma closed_mono: "closedUnder K' P \<Longrightarrow> (\<And>e. K e \<Longrightarrow> K' e) \<Longrightarrow> closedUnder K P"
  unfolding closedUnder_def by (meson list.pred_mono_strong)

lemma CheckAPICompat_region: "list_all (\<lambda>e. region e = 0) (snd (CheckAPICompat err))"
  by (simp add: CheckAPICompat_def)

lemma removeTmpDir_region: "list_all (\<lambda>e. region e = 0) (removeTmpDir w d)"
  by (simp add: removeTmpDir_def split: option.split)

lemma deleteEnvSecret_region: "list_all (\<lambda>e. region e = 1) (deleteEnvSecret w ns n)"
  by (simp add: deleteEnvSecret_def split: option.split)

lemma NewSha_Inr: "NewSha raw = Inr g \<Longrightarrow> g = raw"
  by (simp add: NewSha_def split: if_splits)

lemma watchPod_rule:
  assumes c: "closedUnder (\<lambda>e. region e = 1) P"
    and go: "P (followPod conf w l sbi stack img ns name)"
  shows "P (watchPod conf w l sbi stack img ns name)"
  unfolding watchPod_def
  by (auto split: option.split
      intro!: closed_emit [OF c] closed_deferred [OF c] closed_stop [OF c] go)

lemma launchPod_rule:
  assumes c: "closedUnder (\<lambda>e. region e = 1) P"
    and go: "P (followPod conf w l sbi stack img (PodNamespace conf) name)"
  shows "P (launchPod conf w l sbi stack img name pod)"
  unfolding launchPod_def
  by (auto split: option.split
      intro!: closed_emit [OF c] closed_deferred [OF c] closed_stop [OF c]
        watchPod_rule [OF c] go)

lemma dockerBuild_rule:
  assumes c: "closedUnder (\<lambda>e. region e = 1) P"
    and k: "Contains (index stack ''name'') ''container''"
    and go: "\<And>img name. launched conf w l stack img name
               \<Longrightarrow> P (followPod conf w l sbi stack img (PodNamespace conf) name)"
  shows "P (dockerBuild conf w l appConf sbi stack sel)"
  unfolding dockerBuild_def Let_def
  by (auto split: sum.split
      intro!: closed_after [OF c] closed_stop [OF c] launchPod_rule [OF c] go
      simp: launched_def k)

lemma slugBuild_rule:
  assumes c: "closedUnder (\<lambda>e. region e = 1) P"
    and k: "\<not> Contains (index stack ''name'') ''container''"
    and go: "\<And>img name. launched conf w l stack img name
               \<Longrightarrow> P (followPod conf w l sbi stack img (PodNamespace conf) name)"
  shows "P (slugBuild conf w l appConf sbi stack sel)"
  unfolding slugBuild_def Let_def
  by (auto split: option.split
      intro!: closed_emit [OF c] closed_deferred [OF c] closed_stop [OF c]
        launchPod_rule [OF c] go deleteEnvSecret_region
      simp: launched_def k)

lemma selectBuilder_rule:
  assumes c: "closedUnder (\<lambda>e. region e = 1) P"
    and go: "\<And>img name. launched conf w l stack img name
               \<Longrightarrow> P (followPod conf w l sbi stack img (PodNamespace conf) name)"
  shows "P (selectBuilder conf w l appConf sbi stack)"
  unfolding selectBuilder_def
  by (auto split: sum.split
      intro!: closed_stop [OF c] dockerBuild_rule [OF c] slugBuild_rule [OF c] go)

lemma stageSource_rule:
  assumes c: "closedUnder (\<lambda>e. region e = 0) P"
    and go: "P (selectBuilder conf w l appConf sbi (getStack w (tmpDir l) appConf))"
  shows "P (stageSource conf w l appConf sbi)"
  unfolding stageSource_def Let_def
  by (auto split: option.split sum.split
      intro!: closed_emit [OF c] closed_stop [OF c] go)

lemma invalidateCache_rule:
  assumes c: "closedUnder (\<lambda>e. region e = 0) P"
    and go: "P (selectBuilder conf w l appConf
                  (NewSlugBuilderInfo (appName l) (shortSha l)
                     (appConf ''DRYCC_DISABLE_CACHE'' \<noteq> None))
                  (getStack w (tmpDir l) appConf))"
  shows "P (invalidateCache conf w l appConf)"
  unfolding invalidateCache_def Let_def
  by (auto split: option.split
      intro!: closed_emit [OF c] closed_stop [OF c] stageSource_rule [OF c] go
      simp del: not_None_eq)

lemma fetchConfig_rule:
  assumes c: "closedUnder (\<lambda>e. region e = 0) P"
    and go: "P (selectBuilder conf w l (fst (hooks_GetAppConfig w (Username conf) (appName l)))
                  (NewSlugBuilderInfo (appName l) (shortSha l)
                     (fst (hooks_GetAppConfig w (Username conf) (appName l))
                        ''DRYCC_DISABLE_CACHE'' \<noteq> None))
                  (getStack w (tmpDir l)
                     (fst (hooks_GetAppConfig w (Username conf) (appName l)))))"
  shows "P (fetchConfig conf w l)"
  unfolding fetchConfig_def Let_def
  by (auto split: option.split
      intro!: closed_emit [OF c] closed_after [OF c] closed_stop [OF c]
        invalidateCache_rule [OF c] go CheckAPICompat_region
      simp del: not_None_eq)

lemma build_rule:
  assumes c: "closedUnder (\<lambda>e. region e = 0) P"
    and go: "\<And>l appConf sbi stack. staged conf w raw l appConf sbi stack
               \<Longrightarrow> P (selectBuilder conf w l appConf sbi stack)"
  shows "P (build conf w raw)"
  unfolding build_def Let_def
  by (auto split: option.split sum.split
      intro!: closed_emit [OF c] closed_deferred [OF c] closed_stop [OF c]
        fetchConfig_rule [OF c] go removeTmpDir_region
      simp: staged_def NewSha_def simp del: not_None_eq)

lemma build_follow_rule:
  assumes c: "closedUnder (\<lambda>e. region e < 2) P"
    and go: "\<And>l appConf sbi stack img name.
               staged conf w raw l appConf sbi stack \<Longrightarrow> launched conf w l stack img name
               \<Longrightarrow> P (followPod conf w l sbi stack img (PodNamespace conf) name)"
  shows "P (build conf w raw)"
proof (rule build_rule)
  show "closedUnder (\<lambda>e. region e = 0) P"
    by (rule closed_mono [OF c]) simp
next
  fix l appConf sbi stack
  assume s: "staged conf w raw l appConf sbi stack"
  show "P (selectBuilder conf w l appConf sbi stack)"
  proof (rule selectBuilder_rule)
    show "closedUnder (\<lambda>e. region e = 1) P"
      by (rule closed_mono [OF c]) simp
  next
    fix img name
    assume "launched conf w l stack img name"
    with s show "P (followPod conf w l sbi stack img (PodNamespace conf) name)"
      by (rule go)
  qed
qed


subsection \<open>Exit codes\<close>



lemma exitCodes_Panicked_iff:
  "exitCodes sts = Some Panicked \<longleftrightarrow>
     (\<exists>i < length sts. sts ! i = None \<and> (\<forall>j < i. sts ! j = Some 0))"
proof (induction sts rule: exitCodes.induct)
  case 1
  then show ?case by simp
next
  case (2 rest)
  have "0 < length (None # rest) \<and> (None # rest) ! 0 = None \<and>
      (\<forall>j < 0. (None # rest) ! j = Some 0)"
    by simp
  then show ?case by auto
next
  case (3 exitCode rest)
  show ?case
  proof (cases "exitCode = 0")
    case True
    have "(\<exists>i < length (Some 0 # rest). (Some 0 # rest) ! i = None \<and>
            (\<forall>j < i. (Some 0 # rest) ! j = Some 0)) \<longleftrightarrow>
          (\<exists>i < length rest. rest ! i = None \<and> (\<forall>j < i. rest ! j = Some 0))"
      (is "?L \<longleftrightarrow> ?R")
    proof
      assume ?L
      then obtain i where i: "i < length (Some 0 # rest)" "(Some 0 # rest) ! i = None"
        "\<forall>j < i. (Some 0 # rest) ! j = Some 0"
        by blast
      from i(2) obtain k where k: "i = Suc k" by (cases i) auto
      with i have "k < length rest" "rest ! k = None" by auto
      moreover have "\<forall>j < k. rest ! j = Some 0"
      proof (intro allI impI)
        fix j assume "j < k"
        with k have "Suc j < i" by simp
        with i(3) have "(Some 0 # rest) ! Suc j = Some 0" by blast
        then show "rest ! j = Some 0" by simp
      qed
      ultimately show ?R by blast
    next
      assume ?R
      then obtain k where k: "k < length rest" "rest ! k = None" "\<forall>j < k. rest ! j = Some 0"
        by blast
      have "\<forall>j < Suc k. (Some 0 # rest) ! j = Some 0"
      proof (intro allI impI)
        fix j assume "j < Suc k"
        with k(3) show "(Some 0 # rest) ! j = Some 0" by (cases j) auto
      qed
      with k(1,2) have "Suc k < length (Some 0 # rest) \<and> (Some 0 # rest) ! Suc k = None \<and>
          (\<forall>j < Suc k. (Some 0 # rest) ! j = Some 0)"
        by simp
      then show ?L by blast
    qed
    with True 3 show ?thesis by simp
  next
    case False
    have "\<not> (\<exists>i < length (Some exitCode # rest). (Some exitCode # rest) ! i = None \<and>
            (\<forall>j < i. (Some exitCode # rest) ! j = Some 0))"
    proof
      assume "\<exists>i < length (Some exitCode # rest). (Some exitCode # rest) ! i = None \<and>
            (\<forall>j < i. (Some exitCode # rest) ! j = Some 0)"
      then obtain i where i: "(Some exitCode # rest) ! i = None"
        "\<forall>j < i. (Some exitCode # rest) ! j = Some 0"
        by blast
      from i(1) have "0 < i" by (cases i) auto
      with i(2) have "(Some exitCode # rest) ! 0 = Some 0" by blast
      with False show False by simp
    qed
    with False show ?thesis by simp
  qed
qed

lemma exitCodes_terminated: "\<forall>s \<in> set sts. s \<noteq> None \<Longrightarrow> exitCodes sts \<noteq> Some Panicked"
  by (induction sts rule: exitCodes.induct) auto


lemma exitCodes_no_failure:
  "\<forall>c. Some c \<in> set sts \<longrightarrow> c = 0 \<Longrightarrow>
   exitCodes sts = Some Panicked \<longleftrightarrow> None \<in> set sts"
  by (induction sts rule: exitCodes.induct) auto


lemma exitCodes_not_Success: "exitCodes sts \<noteq> Some Success"
  by (induction sts rule: exitCodes.induct) auto

subsection \<open>The release\<close>

lemma publish_eq:
  "publish conf w l sbi stack img pt =
     (let args = releaseArgs conf l sbi stack img pt;
          chk = CheckAPICompat (snd (hooks_CreateBuild w args))
      in emit EvProgressStart (emit (EvCreateBuild args) (emit EvProgressQuit
           (case fst chk of
              Some e \<Rightarrow> (Failed (PublishFailed e), snd chk)
            | None \<Rightarrow>
                (Success,
                 snd chk @
                 [EvLog (Deployed (appName l) (fst (hooks_CreateBuild w args))),
                  EvRun (repoDir l) [''git'', ''gc'']])))))"
  by (simp add: publish_def releaseArgs_def)

lemma publish_calls [simp]:
  "createBuildCalls (snd (publish conf w l sbi stack img pt)) =
     [releaseArgs conf l sbi stack img pt]"
  by (simp add: publish_eq Let_def split: option.split)

lemma publish_fst:
  "fst (publish conf w l sbi stack img pt) =
     (case snd (hooks_CreateBuild w (releaseArgs conf l sbi stack img pt)) of
        None \<Rightarrow> Success
      | Some e \<Rightarrow> if e = ErrAPIMismatch then Success else Failed (PublishFailed e))"
  by (simp add: publish_eq Let_def CheckAPICompat_def split: option.split)

lemma publish_not_Panicked: "fst (publish conf w l sbi stack img pt) \<noteq> Panicked"
  by (simp add: publish_fst split: option.split)

lemma publish_CreateBuild:
  "EvCreateBuild a \<in> set (snd (publish conf w l sbi stack img pt)) \<longleftrightarrow>
     a = releaseArgs conf l sbi stack img pt"
  by (auto simp add: publish_eq Let_def split: option.split)

lemma publish_Deployed:
  "fst (publish conf w l sbi stack img pt) = Success \<Longrightarrow>
   EvLog (Deployed (appName l)
            (fst (hooks_CreateBuild w (releaseArgs conf l sbi stack img pt))))
     \<in> set (snd (publish conf w l sbi stack img pt))"
  by (simp add: publish_eq Let_def split: option.splits)

lemma publish_Warn:
  "snd (hooks_CreateBuild w (releaseArgs conf l sbi stack img pt)) = Some ErrAPIMismatch \<Longrightarrow>
   EvLog WarnAPIMismatch \<in> set (snd (publish conf w l sbi stack img pt))"
  by (simp add: publish_eq Let_def CheckAPICompat_def)

lemma finishBuild_calls:
  "createBuildCalls (snd (finishBuild conf w l sbi stack img sts)) =
     (if exitCodes sts = None
      then (case fst (getProcFile w (tmpDir l) (AbsoluteProcfileKey sbi) stack) of
              Inl f \<Rightarrow> []
            | Inr pt \<Rightarrow> [releaseArgs conf l sbi stack img pt])
      else [])"
  by (simp add: finishBuild_def Let_def split: option.split sum.split)

lemma finishBuild_Success:
  "fst (finishBuild conf w l sbi stack img sts) = Success \<Longrightarrow>
   exitCodes sts = None \<and>
   (\<exists>pt. createBuildCalls (snd (finishBuild conf w l sbi stack img sts)) =
            [releaseArgs conf l sbi stack img pt])"
  by (auto simp add: finishBuild_def Let_def exitCodes_not_Success
        split: option.splits sum.splits)

lemma finishBuild_exit:
  "exitCodes sts = Some out \<Longrightarrow> finishBuild conf w l sbi stack img sts = (out, [])"
  by (simp add: finishBuild_def)

lemma finishBuild_not_Panicked:
  "exitCodes sts = None \<Longrightarrow> fst (finishBuild conf w l sbi stack img sts) \<noteq> Panicked"
  by (simp add: finishBuild_def Let_def publish_not_Panicked split: sum.split)

lemma finishBuild_CreateBuild:
  "EvCreateBuild a \<in> set (snd (finishBuild conf w l sbi stack img sts)) \<Longrightarrow>
   (\<exists>pt. a = releaseArgs conf l sbi stack img pt \<and>
         fst (finishBuild conf w l sbi stack img sts) = fst (publish conf w l sbi stack img pt) \<and>
         set (snd (publish conf w l sbi stack img pt))
           \<subseteq> set (snd (finishBuild conf w l sbi stack img sts)))"
  by (auto simp add: finishBuild_def Let_def publish_CreateBuild
        split: option.splits sum.splits dest: getProcFile_stage)

subsection \<open>Following the pod\<close>

lemma followPod_Success:
  "fst (followPod conf w l sbi stack img ns name) = Success \<Longrightarrow>
   \<exists>pt. createBuildCalls (snd (followPod conf w l sbi stack img ns name)) =
          [releaseArgs conf l sbi stack img pt]"
  by (auto simp add: followPod_def split: option.splits sum.splits dest: finishBuild_Success)

lemma followPod_GetPod:
  "EvGetPod ns' name' \<in> set (snd (followPod conf w l sbi stack img ns name)) \<Longrightarrow>
   pods_Get w ns' name' = Inr sts \<Longrightarrow>
   followPod conf w l sbi stack img ns name =
     (fst (finishBuild conf w l sbi stack img sts),
      [EvStreamCopy ns name, EvWaitForPodEnd ns name, EvGetPod ns name] @
      snd (finishBuild conf w l sbi stack img sts))"
  by (auto simp add: followPod_def emit_def split: option.splits sum.splits
        dest: finishBuild_stage)

lemma followPod_copy_failed:
  "EvStreamCopy ns' name' \<in> set (snd (followPod conf w l sbi stack img ns name)) \<Longrightarrow>
   io_Copy w ns' name' = Some e \<Longrightarrow>
   followPod conf w l sbi stack img ns name =
     (Failed (FetchingLogsFailed e), [EvStreamCopy ns name])"
  by (auto simp add: followPod_def split: option.splits sum.splits dest: finishBuild_stage)

lemma followPod_CreateBuild:
  "EvCreateBuild a \<in> set (snd (followPod conf w l sbi stack img ns name)) \<Longrightarrow>
   (\<exists>pt. a = releaseArgs conf l sbi stack img pt \<and>
         fst (followPod conf w l sbi stack img ns name) = fst (publish conf w l sbi stack img pt) \<and>
         set (snd (publish conf w l sbi stack img pt))
           \<subseteq> set (snd (followPod conf w l sbi stack img ns name)))"
  by (auto simp add: followPod_def split: option.splits sum.splits
        dest!: finishBuild_CreateBuild)


subsection \<open>The release of a successful build\<close>

lemma createBuildCalls_outer: "list_all (\<lambda>e. region e < 2) evs \<Longrightarrow> createBuildCalls evs = []"
  by (induction evs rule: createBuildCalls.induct) auto

lemma outer_mem: "list_all (\<lambda>e. region e < 2) evs \<Longrightarrow> e \<in> set evs \<Longrightarrow> region e < 2"
  by (simp add: list_all_iff)

lemma createdPods_upper: "list_all (\<lambda>e. region e = 0) evs \<Longrightarrow> createdPods evs = []"
  by (induction evs rule: createdPods.induct) auto

lemma build_release:
  assumes "fst (build conf w raw) = Success"
  shows "\<exists>l appConf sbi stack img name pt.
           staged conf w raw l appConf sbi stack \<and> launched conf w l stack img name \<and>
           createBuildCalls (snd (build conf w raw)) = [releaseArgs conf l sbi stack img pt]"
proof -
  let ?P = "\<lambda>r. fst r = Success \<longrightarrow>
      (\<exists>l appConf sbi stack img name pt.
         staged conf w raw l appConf sbi stack \<and> launched conf w l stack img name \<and>
         createBuildCalls (snd r) = [releaseArgs conf l sbi stack img pt])"
  have "?P (build conf w raw)"
  proof (rule build_follow_rule)
    show "closedUnder (\<lambda>e. region e < 2) ?P"
      by (simp add: closedUnder_def createBuildCalls_outer)
  next
    fix l appConf sbi stack img name
    assume "staged conf w raw l appConf sbi stack" "launched conf w l stack img name"
    then show "?P (followPod conf w l sbi stack img (PodNamespace conf) name)"
      using followPod_Success [of conf w l sbi stack img "PodNamespace conf" name] by blast
  qed
  with assms show ?thesis by blast
qed

lemma Contains_container_self: "Contains ''container'' ''container''"
  by simp

text \<open>
  C1 (amended). A successful build calls \<^verbatim>\<open>hooks.CreateBuild\<close> exactly once, with the
  selected stack name. When that name is \<open>container\<close> the image is, for a registry off
  the cluster, the image that \<^verbatim>\<open>getRegistryDetails\<close> left for the application followed by
  \<open>:git-\<close> and the short SHA, and on the cluster the bare application name; for every
  other stack name the image is the slug object key.
\<close>

theorem C1_release_image:
  assumes "fst (build conf w raw) = Success"
  shows "\<exists>a. createBuildCalls (snd (build conf w raw)) = [a] \<and>
    (\<exists>dir. ioutil_TempDir w (GitHome conf @ ''/'' @ Repository conf @ ''/build'') ''tmp''
             = Inr dir \<and>
           cb_stack a =
             index (getStack w dir (fst (hooks_GetAppConfig w (Username conf) (App conf))))
               ''name'') \<and>
    (cb_stack a \<noteq> ''container'' \<longrightarrow>
       cb_image a = ''home/'' @ App conf @ '':git-'' @ Short raw @ ''/push/slug.tgz'') \<and>
    (cb_stack a = ''container'' \<and> RegistryLocation conf = ''on-cluster'' \<longrightarrow>
       cb_image a = App conf) \<and>
    (cb_stack a = ''container'' \<and> RegistryLocation conf \<noteq> ''on-cluster'' \<longrightarrow>
       (\<exists>r. getRegistryDetails w (App conf) (RegistryLocation conf) (PodNamespace conf) = Inr r \<and>
            cb_image a = snd r @ '':git-'' @ Short raw))"
proof -
  from build_release [OF assms] obtain l appConf sbi stack img name pt where
    s: "staged conf w raw l appConf sbi stack" and
    la: "launched conf w l stack img name" and
    c: "createBuildCalls (snd (build conf w raw)) = [releaseArgs conf l sbi stack img pt]"
    by blast
  let ?a = "releaseArgs conf l sbi stack img pt"
  have stack: "\<exists>dir. ioutil_TempDir w (GitHome conf @ ''/'' @ Repository conf @ ''/build'') ''tmp''
             = Inr dir \<and>
           cb_stack ?a =
             index (getStack w dir (fst (hooks_GetAppConfig w (Username conf) (App conf))))
               ''name''"
    using s by (simp add: staged_def releaseArgs_def)
  have slug: "cb_stack ?a \<noteq> ''container'' \<longrightarrow>
       cb_image ?a = ''home/'' @ App conf @ '':git-'' @ Short raw @ ''/push/slug.tgz''"
    using s by (simp add: staged_def releaseArgs_def NewSlugBuilderInfo_def)
  have on: "cb_stack ?a = ''container'' \<and> RegistryLocation conf = ''on-cluster'' \<longrightarrow>
       cb_image ?a = App conf"
    using s la by (simp add: staged_def launched_def releaseArgs_def)
  have off: "cb_stack ?a = ''container'' \<and> RegistryLocation conf \<noteq> ''on-cluster'' \<longrightarrow>
       (\<exists>r. getRegistryDetails w (App conf) (RegistryLocation conf) (PodNamespace conf) = Inr r \<and>
            cb_image ?a = snd r @ '':git-'' @ Short raw)"
    using s la by (auto simp add: staged_def launched_def releaseArgs_def)
  from c stack slug on off show ?thesis by blast
qed


theorem C1_counterexample:
  "fst (build conf0
          (world0\<lparr>getStack := (\<lambda>dir vals. [''name'' \<mapsto> ''container''])\<rparr>) sha0) = Success \<and>
   RegistryLocation conf0 = ''on-cluster'' \<and>
   map cb_stack (createBuildCalls (snd (build conf0
          (world0\<lparr>getStack := (\<lambda>dir vals. [''name'' \<mapsto> ''container''])\<rparr>) sha0)))
     = [''container''] \<and>
   map cb_image (createBuildCalls (snd (build conf0
          (world0\<lparr>getStack := (\<lambda>dir vals. [''name'' \<mapsto> ''container''])\<rparr>) sha0)))
     = [''foo''] \<and>
   ''foo'' \<noteq> App conf0 @ '':git-'' @ Short sha0"
  by (simp add: run_defs sample_defs)

theorem C1_witness:
  "fst (build (conf0\<lparr>RegistryLocation := ''off-cluster''\<rparr>)
          (world0\<lparr>getStack := (\<lambda>dir vals. [''name'' \<mapsto> ''container''])\<rparr>) sha0) = Success \<and>
   (\<exists>a. createBuildCalls (snd (build (conf0\<lparr>RegistryLocation := ''off-cluster''\<rparr>)
          (world0\<lparr>getStack := (\<lambda>dir vals. [''name'' \<mapsto> ''container''])\<rparr>) sha0)) = [a] \<and>
        cb_stack a = ''container'' \<and>
        cb_image a = ''quay.io/org/foo:git-abc12345'')"
proof -
  let ?conf = "conf0\<lparr>RegistryLocation := ''off-cluster''\<rparr>"
  let ?w = "world0\<lparr>getStack := (\<lambda>dir vals. [''name'' \<mapsto> ''container''])\<rparr>"
  have ok: "fst (build ?conf ?w sha0) = Success"
    by (simp add: run_defs sample_defs)
  from C1_release_image [OF ok] obtain a where
    a: "createBuildCalls (snd (build ?conf ?w sha0)) = [a]" and
    st: "\<exists>dir. ioutil_TempDir ?w (GitHome ?conf @ ''/'' @ Repository ?conf @ ''/build'') ''tmp''
             = Inr dir \<and>
           cb_stack a =
             index (getStack ?w dir (fst (hooks_GetAppConfig ?w (Username ?conf) (App ?conf))))
               ''name''" and
    off: "cb_stack a = ''container'' \<and> RegistryLocation ?conf \<noteq> ''on-cluster'' \<longrightarrow>
       (\<exists>r. getRegistryDetails ?w (App ?conf) (RegistryLocation ?conf) (PodNamespace ?conf)
              = Inr r \<and>
            cb_image a = snd r @ '':git-'' @ Short sha0)"
    by blast
  from st have name: "cb_stack a = ''container''"
    by (simp add: sample_defs)
  with off have "cb_image a = ''quay.io/org/foo:git-abc12345''"
    by (simp add: sample_defs)
  with ok a name show ?thesis by blast
qed


subsection \<open>The pod of a build\<close>

lemma watchPod_pods [simp]:
  "createdPods (snd (watchPod conf w l sbi stack img ns name)) = []"
  by (rule createdPods_late) (auto dest: watchPod_stage)

lemma deleteEnvSecret_pods [simp]: "createdPods (deleteEnvSecret w ns n) = []"
  by (rule createdPods_early) (auto dest: deleteEnvSecret_stage)

lemma launchPod_pods [simp]:
  "createdPods (snd (launchPod conf w l sbi stack img name pod)) = [pod]"
  by (simp add: launchPod_def split: option.split)

lemma dockerBuild_pods:
  "p \<in> set (createdPods (snd (dockerBuild conf w l appConf sbi stack sel))) \<Longrightarrow>
   \<exists>d. p = DockerBuilderPod d \<and>
       dp_name d = dockerBuilderPodName (appName l) (shortSha l) \<and>
       dp_registryEnv d ''DRYCC_REGISTRY_LOCATION'' = Some (RegistryLocation conf)"
  by (auto simp add: dockerBuild_def Let_def split: sum.splits if_splits)

lemma selectBuilder_docker_pods:
  "Contains (index stack ''name'') ''container'' \<Longrightarrow>
   p \<in> set (createdPods (snd (selectBuilder conf w l appConf sbi stack))) \<Longrightarrow>
   \<exists>d. p = DockerBuilderPod d \<and>
       dp_name d = dockerBuilderPodName (appName l) (shortSha l) \<and>
       dp_registryEnv d ''DRYCC_REGISTRY_LOCATION'' = Some (RegistryLocation conf)"
  by (auto simp add: selectBuilder_def split: sum.splits dest: dockerBuild_pods)

lemma selectBuilder_Success_pods:
  "fst (selectBuilder conf w l appConf sbi stack) = Success \<Longrightarrow>
   \<exists>p. createdPods (snd (selectBuilder conf w l appConf sbi stack)) = [p]"
  by (auto simp add: selectBuilder_def dockerBuild_def slugBuild_def Let_def
        split: sum.splits option.splits if_splits)

lemma build_pods:
  "(\<forall>p \<in> set (createdPods (snd (build conf w raw))).
      \<exists>l appConf sbi stack. staged conf w raw l appConf sbi stack \<and>
        (Contains (index stack ''name'') ''container'' \<longrightarrow>
           (\<exists>d. p = DockerBuilderPod d \<and>
                dp_name d = dockerBuilderPodName (appName l) (shortSha l) \<and>
                dp_registryEnv d ''DRYCC_REGISTRY_LOCATION'' = Some (RegistryLocation conf)))) \<and>
   (fst (build conf w raw) = Success \<longrightarrow> (\<exists>p. createdPods (snd (build conf w raw)) = [p]))"
  (is "?P (build conf w raw)")
proof (rule build_rule)
  show "closedUnder (\<lambda>e. region e = 0) ?P"
    by (simp add: closedUnder_def createdPods_upper)
next
  fix l appConf sbi stack
  assume s: "staged conf w raw l appConf sbi stack"
  show "?P (selectBuilder conf w l appConf sbi stack)"
    using s selectBuilder_docker_pods [of stack _ conf w l appConf sbi]
      selectBuilder_Success_pods [of conf w l appConf sbi stack]
    by blast
qed

text \<open>
  C9. When the name of the selected stack contains \<open>container\<close> without being
  \<open>container\<close>, every pod the build creates is a docker-builder pod named
  \<open>docker-{app}-{shortSha}\<close> whose registry environment carries the registry location;
  and when the build succeeds it has created exactly that one pod, yet it publishes the
  release with the slug object key as image and with \<open>isContainer\<close> false.
\<close>

theorem C9_container_substring:
  assumes "ioutil_TempDir w (GitHome conf @ ''/'' @ Repository conf @ ''/build'') ''tmp''
             = Inr dir"
    and "name = index (getStack w dir (fst (hooks_GetAppConfig w (Username conf) (App conf))))
                  ''name''"
    and "Contains name ''container''"
    and "name \<noteq> ''container''"
  shows "(\<forall>p \<in> set (createdPods (snd (build conf w raw))).
            \<exists>d. p = DockerBuilderPod d \<and>
                dp_name d = ''docker-'' @ App conf @ ''-'' @ Short raw \<and>
                dp_registryEnv d ''DRYCC_REGISTRY_LOCATION'' = Some (RegistryLocation conf)) \<and>
         (fst (build conf w raw) = Success \<longrightarrow>
            (\<exists>p. createdPods (snd (build conf w raw)) = [p]) \<and>
            (\<exists>a. createBuildCalls (snd (build conf w raw)) = [a] \<and>
                 cb_stack a = name \<and>
                 cb_image a = ''home/'' @ App conf @ '':git-'' @ Short raw @ ''/push/slug.tgz'' \<and>
                 \<not> cb_isContainer a))"
proof (intro conjI ballI impI)
  fix p
  assume "p \<in> set (createdPods (snd (build conf w raw)))"
  with build_pods [of conf w raw] obtain l appConf sbi stack where
    s: "staged conf w raw l appConf sbi stack" and
    d: "Contains (index stack ''name'') ''container'' \<longrightarrow>
           (\<exists>d. p = DockerBuilderPod d \<and>
                dp_name d = dockerBuilderPodName (appName l) (shortSha l) \<and>
                dp_registryEnv d ''DRYCC_REGISTRY_LOCATION'' = Some (RegistryLocation conf))"
    by blast
  from s assms(1,2) have "index stack ''name'' = name"
    by (simp add: staged_def)
  with d assms(3) s show "\<exists>d. p = DockerBuilderPod d \<and>
                dp_name d = ''docker-'' @ App conf @ ''-'' @ Short raw \<and>
                dp_registryEnv d ''DRYCC_REGISTRY_LOCATION'' = Some (RegistryLocation conf)"
    by (simp add: staged_def dockerBuilderPodName_def)
next
  assume "fst (build conf w raw) = Success"
  with build_pods [of conf w raw] show "\<exists>p. createdPods (snd (build conf w raw)) = [p]"
    by blast
next
  assume ok: "fst (build conf w raw) = Success"
  from build_release [OF ok] obtain l appConf sbi stack img nm pt where
    s: "staged conf w raw l appConf sbi stack" and
    c: "createBuildCalls (snd (build conf w raw)) = [releaseArgs conf l sbi stack img pt]"
    by blast
  from s assms(1,2) have n: "index stack ''name'' = name"
    by (simp add: staged_def)
  let ?a = "releaseArgs conf l sbi stack img pt"
  have "cb_stack ?a = name"
    using n by (simp add: releaseArgs_def)
  moreover have "cb_image ?a = ''home/'' @ App conf @ '':git-'' @ Short raw @ ''/push/slug.tgz''"
    using n s assms(4) by (simp add: releaseArgs_def staged_def NewSlugBuilderInfo_def)
  moreover have "\<not> cb_isContainer ?a"
    using n assms(4) by (simp add: releaseArgs_def)
  ultimately show "\<exists>a. createBuildCalls (snd (build conf w raw)) = [a] \<and>
                 cb_stack a = name \<and>
                 cb_image a = ''home/'' @ App conf @ '':git-'' @ Short raw @ ''/push/slug.tgz'' \<and>
                 \<not> cb_isContainer a"
    using c by blast
qed

theorem C9_witness:
  "Contains ''my-container-stack'' ''container'' \<and>
   fst (build conf0
          (world0\<lparr>getStack := (\<lambda>dir vals. [''name'' \<mapsto> ''my-container-stack''])\<rparr>) sha0)
     = Success \<and>
   (\<exists>d. createdPods (snd (build conf0
          (world0\<lparr>getStack := (\<lambda>dir vals. [''name'' \<mapsto> ''my-container-stack''])\<rparr>) sha0))
           = [DockerBuilderPod d] \<and>
        dp_name d = ''docker-foo-abc12345'' \<and>
        dp_registryEnv d ''DRYCC_REGISTRY_LOCATION'' = Some ''on-cluster'') \<and>
   (\<exists>a. createBuildCalls (snd (build conf0
          (world0\<lparr>getStack := (\<lambda>dir vals. [''name'' \<mapsto> ''my-container-stack''])\<rparr>) sha0))
           = [a] \<and>
        cb_stack a = ''my-container-stack'' \<and>
        cb_image a = ''home/foo:git-abc12345/push/slug.tgz'' \<and>
        \<not> cb_isContainer a)"
proof -
  let ?w = "world0\<lparr>getStack := (\<lambda>dir vals. [''name'' \<mapsto> ''my-container-stack''])\<rparr>"
  have td: "ioutil_TempDir ?w (GitHome conf0 @ ''/'' @ Repository conf0 @ ''/build'') ''tmp''
      = Inr ''/home/git/foo.git/build/tmp1''"
    by (simp add: sample_defs)
  have nm: "''my-container-stack'' =
      index (getStack ?w ''/home/git/foo.git/build/tmp1''
               (fst (hooks_GetAppConfig ?w (Username conf0) (App conf0)))) ''name''"
    by (simp add: sample_defs)
  have sub: "Contains ''my-container-stack'' ''container''"
    by simp
  have ne: "''my-container-stack'' \<noteq> ''container''"
    by simp
  have ok: "fst (build conf0 ?w sha0) = Success"
    by (simp add: run_defs sample_defs)
  note inst = C9_container_substring [OF td nm sub ne, of sha0]
  from inst ok obtain p a where
    p: "createdPods (snd (build conf0 ?w sha0)) = [p]" and
    a: "createBuildCalls (snd (build conf0 ?w sha0)) = [a]" "cb_stack a = ''my-container-stack''"
      "cb_image a = ''home/'' @ App conf0 @ '':git-'' @ Short sha0 @ ''/push/slug.tgz''"
      "\<not> cb_isContainer a"
    by blast
  from inst p obtain d where
    d: "p = DockerBuilderPod d" "dp_name d = ''docker-'' @ App conf0 @ ''-'' @ Short sha0"
      "dp_registryEnv d ''DRYCC_REGISTRY_LOCATION'' = Some (RegistryLocation conf0)"
    by auto
  from d(2,3) have "dp_name d = ''docker-foo-abc12345''"
    "dp_registryEnv d ''DRYCC_REGISTRY_LOCATION'' = Some ''on-cluster''"
    by (simp_all add: sample_defs)
  moreover from a(3) have "cb_image a = ''home/foo:git-abc12345/push/slug.tgz''"
    by (simp add: sample_defs)
  ultimately show ?thesis using sub ok p d(1) a(1,2,4) by blast
qed


subsection \<open>The end of the pod\<close>

lemma build_GetPod:
  assumes "EvGetPod ns name \<in> set (snd (build conf w raw))"
    and "pods_Get w ns name = Inr sts"
  shows "\<exists>l sbi stack img.
           fst (build conf w raw) = fst (finishBuild conf w l sbi stack img sts) \<and>
           createBuildCalls (snd (build conf w raw)) =
             createBuildCalls (snd (finishBuild conf w l sbi stack img sts))"
proof -
  let ?P = "\<lambda>r. EvGetPod ns name \<in> set (snd r) \<longrightarrow>
      (\<exists>l sbi stack img.
         fst r = fst (finishBuild conf w l sbi stack img sts) \<and>
         createBuildCalls (snd r) = createBuildCalls (snd (finishBuild conf w l sbi stack img sts)))"
  have "?P (build conf w raw)"
  proof (rule build_follow_rule)
    show "closedUnder (\<lambda>e. region e < 2) ?P"
      unfolding closedUnder_def
      by (auto simp add: createBuildCalls_outer dest: outer_mem)
  next
    fix l appConf sbi stack img nm
    show "?P (followPod conf w l sbi stack img (PodNamespace conf) nm)"
    proof
      assume "EvGetPod ns name \<in> set (snd (followPod conf w l sbi stack img (PodNamespace conf) nm))"
      from followPod_GetPod [OF this assms(2)]
      have "fst (followPod conf w l sbi stack img (PodNamespace conf) nm) =
              fst (finishBuild conf w l sbi stack img sts)"
        and "createBuildCalls (snd (followPod conf w l sbi stack img (PodNamespace conf) nm)) =
              createBuildCalls (snd (finishBuild conf w l sbi stack img sts))"
        by simp_all
      then show "\<exists>l' sbi' stack' img'.
         fst (followPod conf w l sbi stack img (PodNamespace conf) nm) =
           fst (finishBuild conf w l' sbi' stack' img' sts) \<and>
         createBuildCalls (snd (followPod conf w l sbi stack img (PodNamespace conf) nm)) =
           createBuildCalls (snd (finishBuild conf w l' sbi' stack' img' sts))"
        by blast
    qed
  qed
  with assms(1) show ?thesis by blast
qed

lemma build_exit:
  assumes "EvGetPod ns name \<in> set (snd (build conf w raw))"
    and "pods_Get w ns name = Inr sts"
    and "exitCodes sts = Some out"
  shows "fst (build conf w raw) = out" and "createBuildCalls (snd (build conf w raw)) = []"
  using build_GetPod [OF assms(1,2)] finishBuild_exit [OF assms(3), of conf w]
  by auto

lemma build_Panicked:
  assumes "EvGetPod ns name \<in> set (snd (build conf w raw))"
    and "pods_Get w ns name = Inr sts"
  shows "fst (build conf w raw) = Panicked \<longleftrightarrow> exitCodes sts = Some Panicked"
proof (cases "exitCodes sts")
  case None
  from build_GetPod [OF assms] obtain l sbi stack img where
    "fst (build conf w raw) = fst (finishBuild conf w l sbi stack img sts)"
    by blast
  with finishBuild_not_Panicked [OF None, of conf w l sbi stack img]
  have "fst (build conf w raw) \<noteq> Panicked" by simp
  with None show ?thesis by simp
next
  case (Some out)
  with build_exit(1) [OF assms Some] show ?thesis by simp
qed




text \<open>
  C10 (amended). The loop reads \<^verbatim>\<open>State.Terminated\<close> of the container statuses of the
  fetched pod without a nil check, one status after the other, and stops at the first
  non-zero exit code. Once the build has fetched the finished pod, it panics exactly
  when it comes to a status with a nil terminated state, which is when every status
  before that one exited with code 0. So the build is free of the nil-pointer panic
  whenever every container status has its terminated state, and for a pod none of whose
  containers reports a non-zero exit code only then; a status after the first non-zero
  exit code is never read.
\<close>

theorem C10_nil_terminated:
  assumes "EvGetPod ns name \<in> set (snd (build conf w raw))"
    and "pods_Get w ns name = Inr sts"
  shows "((\<forall>s \<in> set sts. s \<noteq> None) \<longrightarrow> fst (build conf w raw) \<noteq> Panicked) \<and>
         (fst (build conf w raw) = Panicked \<longleftrightarrow>
            (\<exists>i < length sts. sts ! i = None \<and> (\<forall>j < i. sts ! j = Some 0))) \<and>
         ((\<forall>c. Some c \<in> set sts \<longrightarrow> c = 0) \<longrightarrow>
            (fst (build conf w raw) \<noteq> Panicked \<longleftrightarrow> (\<forall>s \<in> set sts. s \<noteq> None)))"
proof -
  note p = build_Panicked [OF assms]
  have "(\<forall>s \<in> set sts. s \<noteq> None) \<longrightarrow> fst (build conf w raw) \<noteq> Panicked"
    using p exitCodes_terminated [of sts] by blast
  moreover have "fst (build conf w raw) = Panicked \<longleftrightarrow>
      (\<exists>i < length sts. sts ! i = None \<and> (\<forall>j < i. sts ! j = Some 0))"
    using p exitCodes_Panicked_iff [of sts] by simp
  moreover have "(\<forall>c. Some c \<in> set sts \<longrightarrow> c = 0) \<longrightarrow>
      (fst (build conf w raw) \<noteq> Panicked \<longleftrightarrow> (\<forall>s \<in> set sts. s \<noteq> None))"
  proof
    assume z: "\<forall>c. Some c \<in> set sts \<longrightarrow> c = 0"
    have "(\<forall>s \<in> set sts. s \<noteq> None) \<longleftrightarrow> None \<notin> set sts" by metis
    with p exitCodes_no_failure [OF z]
    show "fst (build conf w raw) \<noteq> Panicked \<longleftrightarrow> (\<forall>s \<in> set sts. s \<noteq> None)"
      by simp
  qed
  ultimately show ?thesis by blast
qed

theorem C10_counterexample:
  "None \<in> set [Some (7::int), None] \<and>
   pods_Get (world0\<lparr>pods_Get := (\<lambda>ns n. Inr [Some 7, None])\<rparr>) ''drycc'' ''slug-foo-abc12345''
     = Inr [Some 7, None] \<and>
   EvGetPod ''drycc'' ''slug-foo-abc12345''
     \<in> set (snd (build conf0 (world0\<lparr>pods_Get := (\<lambda>ns n. Inr [Some 7, None])\<rparr>) sha0)) \<and>
   fst (build conf0 (world0\<lparr>pods_Get := (\<lambda>ns n. Inr [Some 7, None])\<rparr>) sha0)
     = Failed (BuilderFailed 7)"
  by (simp add: run_defs sample_defs)

theorem C10_witness:
  "EvGetPod ''drycc'' ''slug-foo-abc12345''
     \<in> set (snd (build conf0 (world0\<lparr>pods_Get := (\<lambda>ns n. Inr [Some 0, None])\<rparr>) sha0)) \<and>
   fst (build conf0 (world0\<lparr>pods_Get := (\<lambda>ns n. Inr [Some 0, None])\<rparr>) sha0) = Panicked \<and>
   fst (build conf0 world0 sha0) \<noteq> Panicked"
proof -
  let ?w = "world0\<lparr>pods_Get := (\<lambda>ns n. Inr [Some 0, None])\<rparr>"
  have ev: "EvGetPod ''drycc'' ''slug-foo-abc12345'' \<in> set (snd (build conf0 ?w sha0))"
    by (simp add: run_defs sample_defs)
  have get: "pods_Get ?w ''drycc'' ''slug-foo-abc12345'' = Inr [Some 0, None]"
    by (simp add: world0_def)
  have nil: "\<exists>i < length [Some (0::int), None]. [Some 0, None] ! i = None \<and>
      (\<forall>j < i. [Some (0::int), None] ! j = Some 0)"
    by (rule exI [of _ 1]) simp
  have ev0: "EvGetPod ''drycc'' ''slug-foo-abc12345'' \<in> set (snd (build conf0 world0 sha0))"
    by (simp add: run_defs sample_defs)
  have get0: "pods_Get world0 ''drycc'' ''slug-foo-abc12345'' = Inr [Some 0]"
    by (simp add: world0_def)
  from C10_nil_terminated [OF ev get] nil
  have "fst (build conf0 ?w sha0) = Panicked" by blast
  moreover from C10_nil_terminated [OF ev0 get0]
  have "fst (build conf0 world0 sha0) \<noteq> Panicked" by simp
  ultimately show ?thesis using ev by blast
qed


subsection \<open>The log stream\<close>

lemma build_copy_failed:
  assumes "EvStreamCopy ns name \<in> set (snd (build conf w raw))"
    and "io_Copy w ns name = Some e"
  shows "fst (build conf w raw) = Failed (FetchingLogsFailed e)"
    and "createBuildCalls (snd (build conf w raw)) = []"
    and "\<forall>x \<in> set (snd (build conf w raw)). region x < 2 \<or> x = EvStreamCopy ns name"
proof -
  let ?P = "\<lambda>r. EvStreamCopy ns name \<in> set (snd r) \<longrightarrow>
      fst r = Failed (FetchingLogsFailed e) \<and> createBuildCalls (snd r) = [] \<and>
      (\<forall>x \<in> set (snd r). region x < 2 \<or> x = EvStreamCopy ns name)"
  have "?P (build conf w raw)"
  proof (rule build_follow_rule)
    show "closedUnder (\<lambda>e. region e < 2) ?P"
      unfolding closedUnder_def
      by (auto simp add: createBuildCalls_outer dest: outer_mem)
  next
    fix l appConf sbi stack img nm
    show "?P (followPod conf w l sbi stack img (PodNamespace conf) nm)"
    proof
      assume ev: "EvStreamCopy ns name
        \<in> set (snd (followPod conf w l sbi stack img (PodNamespace conf) nm))"
      from followPod_copy_failed [OF ev assms(2)]
      have eq: "followPod conf w l sbi stack img (PodNamespace conf) nm =
          (Failed (FetchingLogsFailed e), [EvStreamCopy (PodNamespace conf) nm])" .
      from ev have "EvStreamCopy (PodNamespace conf) nm = EvStreamCopy ns name"
        unfolding eq by simp
      with eq show "fst (followPod conf w l sbi stack img (PodNamespace conf) nm) =
          Failed (FetchingLogsFailed e) \<and>
        createBuildCalls (snd (followPod conf w l sbi stack img (PodNamespace conf) nm)) = [] \<and>
        (\<forall>x \<in> set (snd (followPod conf w l sbi stack img (PodNamespace conf) nm)).
            region x < 2 \<or> x = EvStreamCopy ns name)"
        by simp
    qed
  qed
  with assms(1) show "fst (build conf w raw) = Failed (FetchingLogsFailed e)"
    and "createBuildCalls (snd (build conf w raw)) = []"
    and "\<forall>x \<in> set (snd (build conf w raw)). region x < 2 \<or> x = EvStreamCopy ns name"
    by blast+
qed

lemma followPod_GetPod_copied:
  "EvGetPod ns' name' \<in> set (snd (followPod conf w l sbi stack img ns name)) \<Longrightarrow>
   io_Copy w ns' name' = None"
  by (auto simp add: followPod_def split: option.splits sum.splits dest: finishBuild_stage)

lemma build_GetPod_copied:
  assumes "EvGetPod ns name \<in> set (snd (build conf w raw))"
  shows "io_Copy w ns name = None"
proof -
  let ?P = "\<lambda>r. EvGetPod ns name \<in> set (snd r) \<longrightarrow> io_Copy w ns name = None"
  have "?P (build conf w raw)"
  proof (rule build_follow_rule)
    show "closedUnder (\<lambda>e. region e < 2) ?P"
      unfolding closedUnder_def by (auto dest: outer_mem)
  next
    fix l appConf sbi stack img nm
    show "?P (followPod conf w l sbi stack img (PodNamespace conf) nm)"
      using followPod_GetPod_copied by blast
  qed
  with assms show ?thesis by blast
qed

text \<open>
  C2 (amended). An error while the log stream of the pod is copied ends the build at
  once with the error \<open>fetching builder logs\<close>: the end of the pod is not awaited, the
  pod is not fetched, so its exit codes are never read, and no release is published.
  Only a build whose copy ended without error fetches the pod, and then an exit code
  that ends the loop decides the outcome.
\<close>

theorem C2_broken_stream:
  "(EvStreamCopy ns name \<in> set (snd (build conf w raw)) \<and> io_Copy w ns name = Some e \<longrightarrow>
      fst (build conf w raw) = Failed (FetchingLogsFailed e) \<and>
      createBuildCalls (snd (build conf w raw)) = [] \<and>
      (\<forall>ns' name'. EvWaitForPodEnd ns' name' \<notin> set (snd (build conf w raw)) \<and>
                   EvGetPod ns' name' \<notin> set (snd (build conf w raw)))) \<and>
   (EvGetPod ns name \<in> set (snd (build conf w raw)) \<longrightarrow>
      io_Copy w ns name = None \<and>
      (\<forall>sts out. pods_Get w ns name = Inr sts \<and> exitCodes sts = Some out \<longrightarrow>
           fst (build conf w raw) = out))"
proof (intro conjI impI allI)
  assume h: "EvStreamCopy ns name \<in> set (snd (build conf w raw)) \<and> io_Copy w ns name = Some e"
  then have ev: "EvStreamCopy ns name \<in> set (snd (build conf w raw))"
    and cp: "io_Copy w ns name = Some e"
    by simp_all
  note f = build_copy_failed [OF ev cp]
  show "fst (build conf w raw) = Failed (FetchingLogsFailed e)" by (rule f(1))
  show "createBuildCalls (snd (build conf w raw)) = []" by (rule f(2))
  show "EvWaitForPodEnd ns' name' \<notin> set (snd (build conf w raw))" for ns' name'
    using f(3) by fastforce
  show "EvGetPod ns' name' \<notin> set (snd (build conf w raw))" for ns' name'
    using f(3) by fastforce
next
  assume "EvGetPod ns name \<in> set (snd (build conf w raw))"
  then show "io_Copy w ns name = None" by (rule build_GetPod_copied)
next
  fix sts out
  assume "EvGetPod ns name \<in> set (snd (build conf w raw))"
    "pods_Get w ns name = Inr sts \<and> exitCodes sts = Some out"
  then show "fst (build conf w raw) = out"
    using build_exit(1) by blast
qed

theorem C2_counterexample:
  "io_Copy (world0\<lparr>io_Copy := (\<lambda>ns n. Some ''unexpected EOF'')\<rparr>) ''drycc'' ''slug-foo-abc12345''
     = Some ''unexpected EOF'' \<and>
   pods_Get (world0\<lparr>io_Copy := (\<lambda>ns n. Some ''unexpected EOF'')\<rparr>) ''drycc''
       ''slug-foo-abc12345'' = Inr [Some 0] \<and>
   EvStreamCopy ''drycc'' ''slug-foo-abc12345''
     \<in> set (snd (build conf0 (world0\<lparr>io_Copy := (\<lambda>ns n. Some ''unexpected EOF'')\<rparr>) sha0)) \<and>
   fst (build conf0 (world0\<lparr>io_Copy := (\<lambda>ns n. Some ''unexpected EOF'')\<rparr>) sha0)
     = Failed (FetchingLogsFailed ''unexpected EOF'') \<and>
   fst (build conf0 world0 sha0) = Success"
  by (simp add: run_defs sample_defs)

theorem C2_witness:
  "EvStreamCopy ''drycc'' ''slug-foo-abc12345''
     \<in> set (snd (build conf0 (world0\<lparr>io_Copy := (\<lambda>ns n. Some ''unexpected EOF'')\<rparr>) sha0)) \<and>
   fst (build conf0 (world0\<lparr>io_Copy := (\<lambda>ns n. Some ''unexpected EOF'')\<rparr>) sha0)
     = Failed (FetchingLogsFailed ''unexpected EOF'') \<and>
   createBuildCalls
     (snd (build conf0 (world0\<lparr>io_Copy := (\<lambda>ns n. Some ''unexpected EOF'')\<rparr>) sha0)) = [] \<and>
   EvGetPod ''drycc'' ''slug-foo-abc12345''
     \<notin> set (snd (build conf0 (world0\<lparr>io_Copy := (\<lambda>ns n. Some ''unexpected EOF'')\<rparr>) sha0))"
proof -
  let ?w = "world0\<lparr>io_Copy := (\<lambda>ns n. Some ''unexpected EOF'')\<rparr>"
  have ev: "EvStreamCopy ''drycc'' ''slug-foo-abc12345'' \<in> set (snd (build conf0 ?w sha0))"
    by (simp add: run_defs sample_defs)
  have cp: "io_Copy ?w ''drycc'' ''slug-foo-abc12345'' = Some ''unexpected EOF''"
    by simp
  from C2_broken_stream [of "''drycc''" "''slug-foo-abc12345''" conf0 ?w sha0 "''unexpected EOF''"]
    ev cp
  show ?thesis by blast
qed


subsection \<open>The cache\<close>

lemma stageSource_archive:
  "EvRun (repoDir l)
     [''git'', ''archive'', ''--format=tar.gz'', ''--output='' @ appName l @ ''.tar.gz'', shortSha l]
     \<in> set (snd (stageSource conf w l appConf sbi))"
  by (simp add: stageSource_def Let_def)

lemma isCreatePod_simps [simp]:
  "isCreatePod (EvCreatePod ns p)"
  "\<not> isCreatePod (EvMkdirAll d)"
  "\<not> isCreatePod (EvTempDir d pat)"
  "\<not> isCreatePod (EvRemoveAll d)"
  "\<not> isCreatePod (EvControllerNew h port)"
  "\<not> isCreatePod (EvGetAppConfig u a)"
  "\<not> isCreatePod (EvStat k)"
  "\<not> isCreatePod (EvDelete k)"
  "\<not> isCreatePod (EvLog line)"
  by (simp_all add: isCreatePod_def)

lemma precededBy_no_pods: "\<forall>e \<in> set tr. \<not> isCreatePod e \<Longrightarrow> precededBy P isCreatePod tr"
  by (induction tr) auto

lemma removeTmpDir_preceded [simp]: "precededBy P isCreatePod (removeTmpDir w d)"
  by (rule precededBy_no_pods) (auto simp add: removeTmpDir_mem)

lemma build_cache_only:
  "(EvStat k \<in> set (snd (build conf w raw)) \<or> EvDelete k \<in> set (snd (build conf w raw))) \<Longrightarrow>
   k = ''home/'' @ App conf @ ''/cache'' \<and>
   fst (hooks_GetAppConfig w (Username conf) (App conf)) ''DRYCC_DISABLE_CACHE'' \<noteq> None"
  by (auto simp add: build_def fetchConfig_def invalidateCache_def Let_def removeTmpDir_mem
        NewSlugBuilderInfo_def
        split: sum.splits option.splits if_splits)

lemma build_cache_checked:
  "EvGetAppConfig u a \<notin> set (snd (build conf w raw)) \<or>
   fst (CheckAPICompat (snd (hooks_GetAppConfig w u a))) \<noteq> None \<or>
   fst (hooks_GetAppConfig w u a) ''DRYCC_DISABLE_CACHE'' = None \<or>
   EvStat (''home/'' @ App conf @ ''/cache'') \<in> set (snd (build conf w raw))"
  by (auto simp add: build_def fetchConfig_def invalidateCache_def Let_def removeTmpDir_mem
        NewSlugBuilderInfo_def
        split: sum.split option.split)

lemma build_cache_deleted_first:
  "fst (hooks_GetAppConfig w (Username conf) (App conf)) ''DRYCC_DISABLE_CACHE'' \<noteq> None \<Longrightarrow>
   storage_Stat w (''home/'' @ App conf @ ''/cache'') = None \<Longrightarrow>
   precededBy (\<lambda>e. e = EvDelete (''home/'' @ App conf @ ''/cache'')) isCreatePod
     (snd (build conf w raw))"
  by (simp add: build_def fetchConfig_def invalidateCache_def Let_def NewSlugBuilderInfo_def
        precededBy_append CheckAPICompat_def
        split: sum.split option.split)

lemma build_cache_delete_called:
  "EvStat k \<notin> set (snd (build conf w raw)) \<or> storage_Stat w k \<noteq> None \<or>
   EvDelete k \<in> set (snd (build conf w raw))"
  by (auto simp add: build_def fetchConfig_def invalidateCache_def Let_def removeTmpDir_mem
        split: sum.split option.split)

lemma build_cache_skipped:
  "storage_Stat w (''home/'' @ App conf @ ''/cache'') \<noteq> None \<Longrightarrow>
   EvDelete k \<notin> set (snd (build conf w raw))"
  by (auto simp add: build_def fetchConfig_def invalidateCache_def Let_def removeTmpDir_mem
        NewSlugBuilderInfo_def
        split: sum.split option.split)

lemma invalidateCache_goes_on:
  "EvStat k \<notin> set (snd (invalidateCache conf w l appConf)) \<or> storage_Stat w k = None \<or>
   EvRun (repoDir l)
     [''git'', ''archive'', ''--format=tar.gz'', ''--output='' @ appName l @ ''.tar.gz'', shortSha l]
     \<in> set (snd (invalidateCache conf w l appConf))"
  using stageSource_archive [of l conf w appConf]
  by (auto simp add: invalidateCache_def Let_def split: option.splits)

lemma build_cache_rule:
  assumes c: "closedUnder (\<lambda>e. stage e = 0 \<or> e = EvLog WarnAPIMismatch) P"
    and go: "\<And>l. appName l = App conf \<Longrightarrow> shortSha l = Short raw \<Longrightarrow>
               repoDir l = GitHome conf @ ''/'' @ Repository conf \<Longrightarrow>
               P (invalidateCache conf w l
                    (fst (hooks_GetAppConfig w (Username conf) (App conf))))"
  shows "P (build conf w raw)"
  unfolding build_def fetchConfig_def Let_def
  by (auto split: option.split sum.split
      intro!: closed_emit [OF c] closed_deferred [OF c] closed_after [OF c] closed_stop [OF c] go
      simp: NewSha_def CheckAPICompat_def removeTmpDir_def simp del: not_None_eq)

lemma build_cache_goes_on:
  assumes "EvStat k \<in> set (snd (build conf w raw))" and "storage_Stat w k \<noteq> None"
  shows "EvRun (GitHome conf @ ''/'' @ Repository conf)
     [''git'', ''archive'', ''--format=tar.gz'', ''--output='' @ App conf @ ''.tar.gz'', Short raw]
     \<in> set (snd (build conf w raw))"
proof -
  let ?run = "EvRun (GitHome conf @ ''/'' @ Repository conf)
     [''git'', ''archive'', ''--format=tar.gz'', ''--output='' @ App conf @ ''.tar.gz'', Short raw]"
  let ?P = "\<lambda>r. EvStat k \<in> set (snd r) \<longrightarrow> ?run \<in> set (snd r)"
  have "?P (build conf w raw)"
  proof (rule build_cache_rule)
    show "closedUnder (\<lambda>e. stage e = 0 \<or> e = EvLog WarnAPIMismatch) ?P"
      unfolding closedUnder_def by (auto simp add: list_all_iff)
  next
    fix l :: locals
    assume "appName l = App conf" "shortSha l = Short raw"
      "repoDir l = GitHome conf @ ''/'' @ Repository conf"
    with invalidateCache_goes_on [of k conf w l] assms(2)
    show "?P (invalidateCache conf w l (fst (hooks_GetAppConfig w (Username conf) (App conf))))"
      by auto
  qed
  with assms(1) show ?thesis by blast
qed

lemma build_cache_delete_failed:
  "EvDelete k \<notin> set (snd (build conf w raw)) \<or> storage_Delete w k \<noteq> Some e \<or>
   (fst (build conf w raw) = Failed (CacheDeleteFailed e) \<and>
    createdPods (snd (build conf w raw)) = [])"
  by (auto simp add: build_def fetchConfig_def invalidateCache_def Let_def removeTmpDir_mem
        split: sum.split option.split)


subsection \<open>The controller\<close>

lemma invalidateCache_GetAppConfig_cong:
  "invalidateCache conf (w\<lparr>hooks_GetAppConfig := g\<rparr>) l appConf =
   invalidateCache conf w l appConf"
  by (simp add: invalidateCache_def stageSource_def selectBuilder_def dockerBuild_def
        slugBuild_def launchPod_def watchPod_def followPod_def finishBuild_def publish_def
        getProcFile_def deleteEnvSecret_def Let_def
        cong: if_cong option.case_cong sum.case_cong)

lemma removeTmpDir_GetAppConfig_cong:
  "removeTmpDir (w\<lparr>hooks_GetAppConfig := g\<rparr>) d = removeTmpDir w d"
  by (simp add: removeTmpDir_def)

lemma build_GetAppConfig_fatal:
  "EvGetAppConfig u a \<notin> set (snd (build conf w raw)) \<or>
   snd (hooks_GetAppConfig w u a) \<noteq> Some e \<or> e = ErrAPIMismatch \<or>
   (fst (build conf w raw) = Failed (GetAppConfigFailed e) \<and>
    (\<forall>x \<in> set (snd (build conf w raw)). stage x = 0))"
  by (auto simp add: build_def fetchConfig_def Let_def removeTmpDir_mem CheckAPICompat_def
        split: sum.split option.split)

lemma build_GetAppConfig_warned:
  "EvGetAppConfig u a \<notin> set (snd (build conf w raw)) \<or>
   snd (hooks_GetAppConfig w u a) \<noteq> Some ErrAPIMismatch \<or>
   EvLog WarnAPIMismatch \<in> set (snd (build conf w raw))"
  by (auto simp add: build_def fetchConfig_def Let_def removeTmpDir_mem CheckAPICompat_def
        split: sum.split option.split)

lemma build_GetAppConfig_only:
  "EvGetAppConfig u a \<in> set (snd (build conf w raw)) \<Longrightarrow> u = Username conf \<and> a = App conf"
  by (auto simp add: build_def fetchConfig_def Let_def removeTmpDir_mem CheckAPICompat_def
        split: sum.splits option.splits if_splits)

lemma build_GetAppConfig_mismatch:
  assumes "snd (hooks_GetAppConfig w (Username conf) (App conf)) = Some ErrAPIMismatch"
  shows "fst (build conf w raw) =
         fst (build conf
                (w\<lparr>hooks_GetAppConfig := (\<lambda>u a. (fst (hooks_GetAppConfig w u a), None))\<rparr>) raw)"
    and "filter (\<lambda>x. x \<noteq> EvLog WarnAPIMismatch) (snd (build conf w raw)) =
         filter (\<lambda>x. x \<noteq> EvLog WarnAPIMismatch)
           (snd (build conf
                   (w\<lparr>hooks_GetAppConfig := (\<lambda>u a. (fst (hooks_GetAppConfig w u a), None))\<rparr>)
                   raw))"
  using assms
  by (simp_all add: build_def fetchConfig_def Let_def CheckAPICompat_def
        invalidateCache_GetAppConfig_cong removeTmpDir_GetAppConfig_cong
        split: sum.split option.split)

lemma build_CreateBuild:
  assumes "EvCreateBuild b \<in> set (snd (build conf w raw))"
  shows "\<exists>l sbi stack img pt.
           appName l = App conf \<and> b = releaseArgs conf l sbi stack img pt \<and>
           fst (build conf w raw) = fst (publish conf w l sbi stack img pt) \<and>
           set (snd (publish conf w l sbi stack img pt)) \<subseteq> set (snd (build conf w raw))"
proof -
  let ?P = "\<lambda>r. EvCreateBuild b \<in> set (snd r) \<longrightarrow>
      (\<exists>l sbi stack img pt.
         appName l = App conf \<and> b = releaseArgs conf l sbi stack img pt \<and>
         fst r = fst (publish conf w l sbi stack img pt) \<and>
         set (snd (publish conf w l sbi stack img pt)) \<subseteq> set (snd r))"
  have "?P (build conf w raw)"
  proof (rule build_follow_rule)
    show "closedUnder (\<lambda>e. region e < 2) ?P"
      unfolding closedUnder_def
    proof (intro conjI allI impI)
      fix x evs
      assume "list_all (\<lambda>e. region e < 2) evs" "EvCreateBuild b \<in> set (snd (Failed x, evs))"
      then have False by (auto dest: outer_mem)
      then show "\<exists>l sbi stack img pt.
         appName l = App conf \<and> b = releaseArgs conf l sbi stack img pt \<and>
         fst (Failed x, evs) = fst (publish conf w l sbi stack img pt) \<and>
         set (snd (publish conf w l sbi stack img pt)) \<subseteq> set (snd (Failed x, evs))" ..
    next
      fix pre post r
      assume pre: "list_all (\<lambda>e. region e < 2) pre" and post: "list_all (\<lambda>e. region e < 2) post"
        and r: "?P r" and ev: "EvCreateBuild b \<in> set (snd (fst r, pre @ snd r @ post))"
      from ev pre post have "EvCreateBuild b \<in> set (snd r)"
        by (auto dest: outer_mem)
      with r obtain l sbi stack img pt where
        "appName l = App conf" "b = releaseArgs conf l sbi stack img pt"
        "fst r = fst (publish conf w l sbi stack img pt)"
        "set (snd (publish conf w l sbi stack img pt)) \<subseteq> set (snd r)"
        by blast
      then have "appName l = App conf \<and> b = releaseArgs conf l sbi stack img pt \<and>
         fst (fst r, pre @ snd r @ post) = fst (publish conf w l sbi stack img pt) \<and>
         set (snd (publish conf w l sbi stack img pt)) \<subseteq> set (snd (fst r, pre @ snd r @ post))"
        by auto
      then show "\<exists>l sbi stack img pt.
         appName l = App conf \<and> b = releaseArgs conf l sbi stack img pt \<and>
         fst (fst r, pre @ snd r @ post) = fst (publish conf w l sbi stack img pt) \<and>
         set (snd (publish conf w l sbi stack img pt)) \<subseteq> set (snd (fst r, pre @ snd r @ post))"
        by blast
    qed
  next
    fix l appConf sbi stack img nm
    assume s: "staged conf w raw l appConf sbi stack"
    then have "appName l = App conf" by (simp add: staged_def)
    then show "?P (followPod conf w l sbi stack img (PodNamespace conf) nm)"
      using followPod_CreateBuild [of b conf w l sbi stack img "PodNamespace conf" nm]
      by blast
  qed
  with assms show ?thesis by blast
qed

lemma build_CreateBuild_outcome:
  assumes "EvCreateBuild b \<in> set (snd (build conf w raw))"
  shows "fst (build conf w raw) =
           (case snd (hooks_CreateBuild w b) of
              None \<Rightarrow> Success
            | Some e \<Rightarrow> if e = ErrAPIMismatch then Success else Failed (PublishFailed e))"
    and "fst (build conf w raw) = Success \<Longrightarrow>
           EvLog (Deployed (App conf) (fst (hooks_CreateBuild w b))) \<in> set (snd (build conf w raw))"
    and "snd (hooks_CreateBuild w b) = Some ErrAPIMismatch \<Longrightarrow>
           EvLog WarnAPIMismatch \<in> set (snd (build conf w raw))"
proof -
  from build_CreateBuild [OF assms] obtain l sbi stack img pt where
    l: "appName l = App conf" and b: "b = releaseArgs conf l sbi stack img pt" and
    f: "fst (build conf w raw) = fst (publish conf w l sbi stack img pt)" and
    sub: "set (snd (publish conf w l sbi stack img pt)) \<subseteq> set (snd (build conf w raw))"
    by blast
  show "fst (build conf w raw) =
           (case snd (hooks_CreateBuild w b) of
              None \<Rightarrow> Success
            | Some e \<Rightarrow> if e = ErrAPIMismatch then Success else Failed (PublishFailed e))"
    using f b by (simp add: publish_fst)
  show "EvLog (Deployed (App conf) (fst (hooks_CreateBuild w b))) \<in> set (snd (build conf w raw))"
    if "fst (build conf w raw) = Success"
    using that f b l sub publish_Deployed [of conf w l sbi stack img pt] by auto
  show "EvLog WarnAPIMismatch \<in> set (snd (build conf w raw))"
    if "snd (hooks_CreateBuild w b) = Some ErrAPIMismatch"
    using that b sub publish_Warn [of w conf l sbi stack img pt] by auto
qed

lemma launchPod_CreatePod:
  "EvCreatePod ns p \<in> set (snd (launchPod conf w l sbi stack img name pod)) \<Longrightarrow> p = pod"
  by (auto simp add: launchPod_def split: option.splits dest: watchPod_stage)

lemma selectBuilder_pod_env:
  "EvCreatePod ns p \<in> set (snd (selectBuilder conf w l appConf sbi stack)) \<Longrightarrow>
   (\<exists>d. p = DockerBuilderPod d \<and> dp_env d = appConf) \<or>
   (\<exists>s. p = SlugBuilderPod s \<and> sp_env s = appConf)"
  by (auto simp add: selectBuilder_def dockerBuild_def slugBuild_def Let_def
        split: sum.splits option.splits if_splits
        dest!: launchPod_CreatePod deleteEnvSecret_stage)

lemma selectBuilder_secret_values:
  "EvCreateSecret ns n r \<in> set (snd (selectBuilder conf w l appConf sbi stack)) \<Longrightarrow>
   r = createAppEnvConfigSecret w ns n appConf"
  by (auto simp add: selectBuilder_def dockerBuild_def slugBuild_def deleteEnvSecret_def Let_def
        split: sum.splits option.splits if_splits
        dest: launchPod_stage)

lemma build_config_used:
  "(EvCreatePod ns p \<in> set (snd (build conf w raw)) \<longrightarrow>
      (\<exists>d. p = DockerBuilderPod d \<and>
            dp_env d = fst (hooks_GetAppConfig w (Username conf) (App conf))) \<or>
      (\<exists>s. p = SlugBuilderPod s \<and>
            sp_env s = fst (hooks_GetAppConfig w (Username conf) (App conf)))) \<and>
   (EvCreateSecret ns n r \<in> set (snd (build conf w raw)) \<longrightarrow>
      r = createAppEnvConfigSecret w ns n
            (fst (hooks_GetAppConfig w (Username conf) (App conf))))"
proof -
  let ?vals = "fst (hooks_GetAppConfig w (Username conf) (App conf))"
  let ?P = "\<lambda>t :: run.
    (EvCreatePod ns p \<in> set (snd t) \<longrightarrow>
      (\<exists>d. p = DockerBuilderPod d \<and> dp_env d = ?vals) \<or>
      (\<exists>s. p = SlugBuilderPod s \<and> sp_env s = ?vals)) \<and>
    (EvCreateSecret ns n r \<in> set (snd t) \<longrightarrow> r = createAppEnvConfigSecret w ns n ?vals)"
  show "?P (build conf w raw)"
  proof (rule build_rule)
    show "closedUnder (\<lambda>e. region e = 0) ?P"
      unfolding closedUnder_def by (auto simp add: list_all_iff)
  next
    fix l appConf sbi stack
    assume "staged conf w raw l appConf sbi stack"
    then have "appConf = ?vals" by (simp add: staged_def)
    then show "?P (selectBuilder conf w l appConf sbi stack)"
      using selectBuilder_pod_env [of ns p conf w l appConf sbi stack]
        selectBuilder_secret_values [of ns n r conf w l appConf sbi stack]
      by blast
  qed
qed

lemma build_CreateBuild_stack:
  assumes "EvCreateBuild b \<in> set (snd (build conf w raw))"
  shows "\<exists>d. cb_stack b =
           index (getStack w d (fst (hooks_GetAppConfig w (Username conf) (App conf)))) ''name''"
proof -
  let ?vals = "fst (hooks_GetAppConfig w (Username conf) (App conf))"
  let ?P = "\<lambda>t :: run. EvCreateBuild b \<in> set (snd t) \<longrightarrow>
      (\<exists>d. cb_stack b = index (getStack w d ?vals) ''name'')"
  have "?P (build conf w raw)"
  proof (rule build_follow_rule)
    show "closedUnder (\<lambda>e. region e < 2) ?P"
      unfolding closedUnder_def by (auto dest: outer_mem)
  next
    fix l appConf sbi stack img nm
    assume s: "staged conf w raw l appConf sbi stack"
    then have st: "stack = getStack w (tmpDir l) ?vals" by (simp add: staged_def)
    show "?P (followPod conf w l sbi stack img (PodNamespace conf) nm)"
    proof
      assume "EvCreateBuild b \<in> set (snd (followPod conf w l sbi stack img (PodNamespace conf) nm))"
      from followPod_CreateBuild [OF this] obtain pt where
        "b = releaseArgs conf l sbi stack img pt" by blast
      with st have "cb_stack b = index (getStack w (tmpDir l) ?vals) ''name''"
        by (simp add: releaseArgs_def)
      then show "\<exists>d. cb_stack b = index (getStack w d ?vals) ''name''" by blast
    qed
  qed
  with assms show ?thesis by blast
qed

lemma exitCodes_kind:
  "exitCodes sts = Some out \<Longrightarrow> out = Panicked \<or> (\<exists>c. out = Failed (BuilderFailed c))"
  by (induction sts rule: exitCodes.induct) (auto split: if_splits)

lemma finishBuild_not_config:
  "fst (finishBuild conf w l sbi stack img sts) \<noteq> Failed (GetAppConfigFailed e)"
  by (auto simp add: finishBuild_def Let_def publish_fst
        split: option.splits sum.splits dest: exitCodes_kind)

lemma followPod_not_config:
  "fst (followPod conf w l sbi stack img ns name) \<noteq> Failed (GetAppConfigFailed e)"
  by (auto simp add: followPod_def finishBuild_not_config split: option.splits sum.splits)

lemma launchPod_not_config:
  "fst (launchPod conf w l sbi stack img name pod) \<noteq> Failed (GetAppConfigFailed e)"
  by (auto simp add: launchPod_def watchPod_def followPod_not_config split: option.splits)

lemma selectBuilder_not_config:
  "fst (selectBuilder conf w l appConf sbi stack) \<noteq> Failed (GetAppConfigFailed e)"
  by (auto simp add: selectBuilder_def dockerBuild_def slugBuild_def Let_def
        launchPod_not_config split: option.splits sum.splits)

lemma invalidateCache_not_config:
  "fst (invalidateCache conf w l appConf) \<noteq> Failed (GetAppConfigFailed e)"
  by (auto simp add: invalidateCache_def stageSource_def Let_def selectBuilder_not_config
        split: option.splits sum.splits)

lemma build_not_config:
  "snd (hooks_GetAppConfig w (Username conf) (App conf)) = Some ErrAPIMismatch \<Longrightarrow>
   fst (build conf w raw) \<noteq> Failed (GetAppConfigFailed e)"
  by (auto simp add: build_def fetchConfig_def Let_def CheckAPICompat_def
        invalidateCache_not_config split: option.splits sum.splits)

lemma build_config_goes_on:
  "EvGetAppConfig u a \<notin> set (snd (build conf w raw)) \<or>
   fst (CheckAPICompat (snd (hooks_GetAppConfig w u a))) \<noteq> None \<or>
   (\<exists>e. fst (build conf w raw) = Failed (CacheDeleteFailed e)) \<or>
   EvRun (GitHome conf @ ''/'' @ Repository conf)
     [''git'', ''archive'', ''--format=tar.gz'', ''--output='' @ App conf @ ''.tar.gz'', Short raw]
     \<in> set (snd (build conf w raw))"
  by (auto simp add: build_def fetchConfig_def invalidateCache_def stageSource_def Let_def
        removeTmpDir_mem NewSha_def
        split: sum.split option.split if_splits)

text \<open>
  C5. \<^verbatim>\<open>CheckAPICompat\<close> turns the sentinel \<open>ErrAPIMismatch\<close> into nil with a warning
  in the log and returns every other value unchanged. When the build calls
  \<^verbatim>\<open>GetAppConfig\<close>: any other error fails the build with that error and nothing but the
  cleanup follows. On the sentinel the warning is logged, the build does not fail with an
  error of that call, and it goes on to \<^verbatim>\<open>git archive\<close> unless the deletion of the
  cache fails; it goes on with the response: the cache is looked up exactly when the
  values of the response have the key \<open>DRYCC_DISABLE_CACHE\<close>, every pod that is created
  has the values of the response as its environment, the environment secret is made
  from them, and the stack that is published is the one \<^verbatim>\<open>getStack\<close> gives for them;
  and the build has the outcome and, the warning apart, the calls that it has when the
  call returns the same response without error. When the build calls
  \<^verbatim>\<open>CreateBuild\<close>: any other error fails the build as a failed publication; on the
  sentinel, as without error, the build succeeds and logs the release number of the
  response, with the warning logged for the sentinel.
\<close>

theorem C5_api_mismatch:
  "CheckAPICompat (Some ErrAPIMismatch) = (None, [EvLog WarnAPIMismatch]) \<and>
   (err \<noteq> Some ErrAPIMismatch \<longrightarrow> CheckAPICompat err = (err, [])) \<and>
   (EvGetAppConfig u a \<in> set (snd (build conf w raw)) \<longrightarrow>
      (\<forall>e. snd (hooks_GetAppConfig w u a) = Some e \<and> e \<noteq> ErrAPIMismatch \<longrightarrow>
           fst (build conf w raw) = Failed (GetAppConfigFailed e) \<and>
           (\<forall>x \<in> set (snd (build conf w raw)). stage x = 0)) \<and>
      (snd (hooks_GetAppConfig w u a) = Some ErrAPIMismatch \<longrightarrow>
           EvLog WarnAPIMismatch \<in> set (snd (build conf w raw)) \<and>
           (\<forall>e. fst (build conf w raw) \<noteq> Failed (GetAppConfigFailed e)) \<and>
           ((\<exists>e. fst (build conf w raw) = Failed (CacheDeleteFailed e)) \<or>
            EvRun (GitHome conf @ ''/'' @ Repository conf)
              [''git'', ''archive'', ''--format=tar.gz'', ''--output='' @ App conf @ ''.tar.gz'',
               Short raw]
              \<in> set (snd (build conf w raw))) \<and>
           (EvStat (''home/'' @ App conf @ ''/cache'') \<in> set (snd (build conf w raw)) \<longleftrightarrow>
              fst (hooks_GetAppConfig w u a) ''DRYCC_DISABLE_CACHE'' \<noteq> None) \<and>
           (\<forall>ns p. EvCreatePod ns p \<in> set (snd (build conf w raw)) \<longrightarrow>
              (\<exists>d. p = DockerBuilderPod d \<and> dp_env d = fst (hooks_GetAppConfig w u a)) \<or>
              (\<exists>s. p = SlugBuilderPod s \<and> sp_env s = fst (hooks_GetAppConfig w u a))) \<and>
           (\<forall>ns n r. EvCreateSecret ns n r \<in> set (snd (build conf w raw)) \<longrightarrow>
              r = createAppEnvConfigSecret w ns n (fst (hooks_GetAppConfig w u a))) \<and>
           (\<forall>b'. EvCreateBuild b' \<in> set (snd (build conf w raw)) \<longrightarrow>
              (\<exists>d. cb_stack b' =
                     index (getStack w d (fst (hooks_GetAppConfig w u a))) ''name'')) \<and>
           fst (build conf w raw) =
             fst (build conf
                    (w\<lparr>hooks_GetAppConfig := (\<lambda>u a. (fst (hooks_GetAppConfig w u a), None))\<rparr>)
                    raw) \<and>
           filter (\<lambda>x. x \<noteq> EvLog WarnAPIMismatch) (snd (build conf w raw)) =
             filter (\<lambda>x. x \<noteq> EvLog WarnAPIMismatch)
               (snd (build conf
                      (w\<lparr>hooks_GetAppConfig := (\<lambda>u a. (fst (hooks_GetAppConfig w u a), None))\<rparr>)
                      raw)))) \<and>
   (EvCreateBuild b \<in> set (snd (build conf w raw)) \<longrightarrow>
      (\<forall>e. snd (hooks_CreateBuild w b) = Some e \<and> e \<noteq> ErrAPIMismatch \<longrightarrow>
           fst (build conf w raw) = Failed (PublishFailed e)) \<and>
      (snd (hooks_CreateBuild w b) = None \<or> snd (hooks_CreateBuild w b) = Some ErrAPIMismatch \<longrightarrow>
           fst (build conf w raw) = Success \<and>
           EvLog (Deployed (App conf) (fst (hooks_CreateBuild w b)))
             \<in> set (snd (build conf w raw))) \<and>
      (snd (hooks_CreateBuild w b) = Some ErrAPIMismatch \<longrightarrow>
           EvLog WarnAPIMismatch \<in> set (snd (build conf w raw))))"
proof (intro conjI impI allI)
  show "CheckAPICompat (Some ErrAPIMismatch) = (None, [EvLog WarnAPIMismatch])"
    by (simp add: CheckAPICompat_def)
next
  assume "err \<noteq> Some ErrAPIMismatch"
  then show "CheckAPICompat err = (err, [])"
    by (simp add: CheckAPICompat_def)
next
  fix e
  assume "EvGetAppConfig u a \<in> set (snd (build conf w raw))"
    "snd (hooks_GetAppConfig w u a) = Some e \<and> e \<noteq> ErrAPIMismatch"
  with build_GetAppConfig_fatal [of u a conf w raw e]
  show "fst (build conf w raw) = Failed (GetAppConfigFailed e)"
    and "\<forall>x \<in> set (snd (build conf w raw)). stage x = 0"
    by blast+
next
  assume ev: "EvGetAppConfig u a \<in> set (snd (build conf w raw))"
    and mm: "snd (hooks_GetAppConfig w u a) = Some ErrAPIMismatch"
  from ev mm build_GetAppConfig_warned [of u a conf w raw]
  show "EvLog WarnAPIMismatch \<in> set (snd (build conf w raw))"
    by blast
  from build_GetAppConfig_only [OF ev] have ua: "u = Username conf" "a = App conf"
    by simp_all
  from mm have mm': "snd (hooks_GetAppConfig w (Username conf) (App conf)) = Some ErrAPIMismatch"
    unfolding ua .
  from mm have chk: "fst (CheckAPICompat (snd (hooks_GetAppConfig w u a))) = None"
    by (simp add: CheckAPICompat_def)
  show "fst (build conf w raw) \<noteq> Failed (GetAppConfigFailed e)" for e
    by (rule build_not_config [OF mm'])
  from build_config_goes_on [of u a conf w raw] ev chk
  show "(\<exists>e. fst (build conf w raw) = Failed (CacheDeleteFailed e)) \<or>
      EvRun (GitHome conf @ ''/'' @ Repository conf)
        [''git'', ''archive'', ''--format=tar.gz'', ''--output='' @ App conf @ ''.tar.gz'',
         Short raw]
        \<in> set (snd (build conf w raw))"
    by blast
  show "EvStat (''home/'' @ App conf @ ''/cache'') \<in> set (snd (build conf w raw)) \<longleftrightarrow>
      fst (hooks_GetAppConfig w u a) ''DRYCC_DISABLE_CACHE'' \<noteq> None"
  proof
    assume "EvStat (''home/'' @ App conf @ ''/cache'') \<in> set (snd (build conf w raw))"
    then have "fst (hooks_GetAppConfig w (Username conf) (App conf)) ''DRYCC_DISABLE_CACHE''
        \<noteq> None"
      using build_cache_only [of "''home/'' @ App conf @ ''/cache''" conf w raw] by blast
    then show "fst (hooks_GetAppConfig w u a) ''DRYCC_DISABLE_CACHE'' \<noteq> None"
      unfolding ua .
  next
    assume "fst (hooks_GetAppConfig w u a) ''DRYCC_DISABLE_CACHE'' \<noteq> None"
    with build_cache_checked [of u a conf w raw] ev chk
    show "EvStat (''home/'' @ App conf @ ''/cache'') \<in> set (snd (build conf w raw))"
      by blast
  qed
  show "(\<exists>d. p = DockerBuilderPod d \<and> dp_env d = fst (hooks_GetAppConfig w u a)) \<or>
      (\<exists>s. p = SlugBuilderPod s \<and> sp_env s = fst (hooks_GetAppConfig w u a))"
    if "EvCreatePod ns p \<in> set (snd (build conf w raw))" for ns p
    using that build_config_used [of ns p conf w raw] unfolding ua by blast
  show "r = createAppEnvConfigSecret w ns n (fst (hooks_GetAppConfig w u a))"
    if "EvCreateSecret ns n r \<in> set (snd (build conf w raw))" for ns n r
    using that build_config_used [of ns _ conf w raw n r] unfolding ua by blast
  show "\<exists>d. cb_stack b' = index (getStack w d (fst (hooks_GetAppConfig w u a))) ''name''"
    if "EvCreateBuild b' \<in> set (snd (build conf w raw))" for b'
    using build_CreateBuild_stack [OF that] unfolding ua .
  from build_GetAppConfig_mismatch [OF mm', of raw]
  show "fst (build conf w raw) =
      fst (build conf
             (w\<lparr>hooks_GetAppConfig := (\<lambda>u a. (fst (hooks_GetAppConfig w u a), None))\<rparr>) raw)"
    and "filter (\<lambda>x. x \<noteq> EvLog WarnAPIMismatch) (snd (build conf w raw)) =
      filter (\<lambda>x. x \<noteq> EvLog WarnAPIMismatch)
        (snd (build conf
                (w\<lparr>hooks_GetAppConfig := (\<lambda>u a. (fst (hooks_GetAppConfig w u a), None))\<rparr>)
                raw))"
    by blast+
next
  fix e
  assume "EvCreateBuild b \<in> set (snd (build conf w raw))"
    "snd (hooks_CreateBuild w b) = Some e \<and> e \<noteq> ErrAPIMismatch"
  with build_CreateBuild_outcome(1) [of b conf w raw]
  show "fst (build conf w raw) = Failed (PublishFailed e)"
    by simp
next
  assume ev: "EvCreateBuild b \<in> set (snd (build conf w raw))"
    and ok: "snd (hooks_CreateBuild w b) = None \<or> snd (hooks_CreateBuild w b) = Some ErrAPIMismatch"
  from build_CreateBuild_outcome(1) [OF ev] ok
  show s: "fst (build conf w raw) = Success"
    by auto
  from build_CreateBuild_outcome(2) [OF ev s]
  show "EvLog (Deployed (App conf) (fst (hooks_CreateBuild w b))) \<in> set (snd (build conf w raw))" .
next
  assume "EvCreateBuild b \<in> set (snd (build conf w raw))"
    "snd (hooks_CreateBuild w b) = Some ErrAPIMismatch"
  then show "EvLog WarnAPIMismatch \<in> set (snd (build conf w raw))"
    by (rule build_CreateBuild_outcome(3))
qed


theorem C5_witness:
  "fst (build conf0
          (world0\<lparr>hooks_GetAppConfig := (\<lambda>u a. (Map.empty, Some (ErrController ''500'')))\<rparr>)
          sha0) = Failed (GetAppConfigFailed (ErrController ''500'')) \<and>
   fst (build conf0
          (world0\<lparr>hooks_GetAppConfig :=
                    (\<lambda>u a. ([''DRYCC_DISABLE_CACHE'' \<mapsto> ''1''], Some ErrAPIMismatch)),
                  hooks_CreateBuild := (\<lambda>b. (3, Some ErrAPIMismatch))\<rparr>) sha0) = Success \<and>
   EvLog (Deployed ''foo'' 3)
     \<in> set (snd (build conf0
          (world0\<lparr>hooks_GetAppConfig :=
                    (\<lambda>u a. ([''DRYCC_DISABLE_CACHE'' \<mapsto> ''1''], Some ErrAPIMismatch)),
                  hooks_CreateBuild := (\<lambda>b. (3, Some ErrAPIMismatch))\<rparr>) sha0)) \<and>
   EvLog WarnAPIMismatch
     \<in> set (snd (build conf0
          (world0\<lparr>hooks_GetAppConfig :=
                    (\<lambda>u a. ([''DRYCC_DISABLE_CACHE'' \<mapsto> ''1''], Some ErrAPIMismatch)),
                  hooks_CreateBuild := (\<lambda>b. (3, Some ErrAPIMismatch))\<rparr>) sha0)) \<and>
   EvStat ''home/foo/cache''
     \<in> set (snd (build conf0
          (world0\<lparr>hooks_GetAppConfig :=
                    (\<lambda>u a. ([''DRYCC_DISABLE_CACHE'' \<mapsto> ''1''], Some ErrAPIMismatch)),
                  hooks_CreateBuild := (\<lambda>b. (3, Some ErrAPIMismatch))\<rparr>) sha0)) \<and>
   fst (build conf0
          (world0\<lparr>hooks_CreateBuild := (\<lambda>b. (0, Some (ErrController ''409'')))\<rparr>) sha0)
     = Failed (PublishFailed (ErrController ''409''))"
proof -
  let ?b = "\<lparr> cb_user = ''alice'', cb_app = ''foo'',
              cb_image = ''home/foo:git-abc12345/push/slug.tgz'', cb_stack = ''heroku-18'',
              cb_sha = ''abc12345'', cb_procType = [''web'' \<mapsto> ''run''],
              cb_isContainer = False \<rparr>"
  let ?w1 = "world0\<lparr>hooks_GetAppConfig := (\<lambda>u a. (Map.empty, Some (ErrController ''500'')))\<rparr>"
  let ?w2 = "world0\<lparr>hooks_GetAppConfig :=
                    (\<lambda>u a. ([''DRYCC_DISABLE_CACHE'' \<mapsto> ''1''], Some ErrAPIMismatch)),
                  hooks_CreateBuild := (\<lambda>b. (3, Some ErrAPIMismatch))\<rparr>"
  let ?w3 = "world0\<lparr>hooks_CreateBuild := (\<lambda>b. (0, Some (ErrController ''409'')))\<rparr>"
  have g1: "EvGetAppConfig ''alice'' ''foo'' \<in> set (snd (build conf0 ?w1 sha0))"
    by (simp add: run_defs sample_defs)
  have e1: "snd (hooks_GetAppConfig ?w1 ''alice'' ''foo'') = Some (ErrController ''500'') \<and>
      ErrController ''500'' \<noteq> ErrAPIMismatch"
    by simp
  have c2: "EvCreateBuild ?b \<in> set (snd (build conf0 ?w2 sha0))"
    by (simp add: run_defs sample_defs)
  have e2: "snd (hooks_CreateBuild ?w2 ?b) = Some ErrAPIMismatch" "fst (hooks_CreateBuild ?w2 ?b) = 3"
    by simp_all
  have g2: "EvGetAppConfig ''alice'' ''foo'' \<in> set (snd (build conf0 ?w2 sha0))"
    by (simp add: run_defs sample_defs)
  have m2: "snd (hooks_GetAppConfig ?w2 ''alice'' ''foo'') = Some ErrAPIMismatch"
    "fst (hooks_GetAppConfig ?w2 ''alice'' ''foo'') ''DRYCC_DISABLE_CACHE'' \<noteq> None"
    by simp_all
  have c3: "EvCreateBuild ?b \<in> set (snd (build conf0 ?w3 sha0))"
    by (simp add: run_defs sample_defs)
  have e3: "snd (hooks_CreateBuild ?w3 ?b) = Some (ErrController ''409'') \<and>
      ErrController ''409'' \<noteq> ErrAPIMismatch"
    by simp
  have app: "App conf0 = ''foo''"
    by (simp add: conf0_def)
  from C5_api_mismatch [of None "''alice''" "''foo''" conf0 ?w1 sha0 ?b] g1 e1
  have r1: "fst (build conf0 ?w1 sha0) = Failed (GetAppConfigFailed (ErrController ''500''))"
    by blast
  from C5_api_mismatch [of None "''alice''" "''foo''" conf0 ?w2 sha0 ?b] c2 e2(1)
  have r2: "fst (build conf0 ?w2 sha0) = Success"
    "EvLog (Deployed (App conf0) (fst (hooks_CreateBuild ?w2 ?b))) \<in> set (snd (build conf0 ?w2 sha0))"
    "EvLog WarnAPIMismatch \<in> set (snd (build conf0 ?w2 sha0))"
    by blast+
  from C5_api_mismatch [of None "''alice''" "''foo''" conf0 ?w2 sha0 ?b] g2 m2
  have "EvStat (''home/'' @ App conf0 @ ''/cache'') \<in> set (snd (build conf0 ?w2 sha0))"
    by blast
  then have r4: "EvStat ''home/foo/cache'' \<in> set (snd (build conf0 ?w2 sha0))"
    unfolding app by simp
  from C5_api_mismatch [of None "''alice''" "''foo''" conf0 ?w3 sha0 ?b] c3 e3
  have r3: "fst (build conf0 ?w3 sha0) = Failed (PublishFailed (ErrController ''409''))"
    by blast
  from r1 r2 r3 r4 show ?thesis
    unfolding app e2(2) by blast
qed


text \<open>
  C3 (amended). In a build with caching disabled, the only object that is checked and
  deleted is the cache key, and it is checked as soon as the configuration has been
  fetched. When \<^verbatim>\<open>Stat\<close> reports that the cache exists, \<^verbatim>\<open>Delete\<close> is called, and it is
  called before any pod is created. When \<^verbatim>\<open>Stat\<close> returns an error, not-found or any
  other, nothing is deleted and the build goes on with \<^verbatim>\<open>git archive\<close>. An error of
  \<^verbatim>\<open>Delete\<close> ends the build with that error before any pod is created.
\<close>

theorem C3_cache_invalidation:
  assumes "fst (hooks_GetAppConfig w (Username conf) (App conf)) ''DRYCC_DISABLE_CACHE'' \<noteq> None"
    and "key = ''home/'' @ App conf @ ''/cache''"
  shows "(\<forall>k. EvStat k \<in> set (snd (build conf w raw)) \<or> EvDelete k \<in> set (snd (build conf w raw))
              \<longrightarrow> k = key) \<and>
    (\<forall>u a. EvGetAppConfig u a \<in> set (snd (build conf w raw)) \<and>
            fst (CheckAPICompat (snd (hooks_GetAppConfig w u a))) = None
              \<longrightarrow> EvStat key \<in> set (snd (build conf w raw))) \<and>
    (storage_Stat w key = None \<longrightarrow>
       precededBy (\<lambda>e. e = EvDelete key) isCreatePod (snd (build conf w raw)) \<and>
       (EvStat key \<in> set (snd (build conf w raw)) \<longrightarrow> EvDelete key \<in> set (snd (build conf w raw)))) \<and>
    (storage_Stat w key \<noteq> None \<longrightarrow>
       (\<forall>k. EvDelete k \<notin> set (snd (build conf w raw))) \<and>
       (EvStat key \<in> set (snd (build conf w raw)) \<longrightarrow>
          EvRun (GitHome conf @ ''/'' @ Repository conf)
            [''git'', ''archive'', ''--format=tar.gz'', ''--output='' @ App conf @ ''.tar.gz'',
             Short raw]
            \<in> set (snd (build conf w raw)))) \<and>
    (\<forall>e. EvDelete key \<in> set (snd (build conf w raw)) \<and> storage_Delete w key = Some e \<longrightarrow>
         fst (build conf w raw) = Failed (CacheDeleteFailed e) \<and>
         createdPods (snd (build conf w raw)) = [])"
proof (intro conjI allI impI)
  fix k
  assume "EvStat k \<in> set (snd (build conf w raw)) \<or> EvDelete k \<in> set (snd (build conf w raw))"
  from build_cache_only [OF this] assms(2) show "k = key" by simp
next
  fix u a
  assume h: "EvGetAppConfig u a \<in> set (snd (build conf w raw)) \<and>
            fst (CheckAPICompat (snd (hooks_GetAppConfig w u a))) = None"
  then have "u = Username conf \<and> a = App conf"
    using build_GetAppConfig_only by blast
  with h assms build_cache_checked [of u a conf w raw]
  show "EvStat key \<in> set (snd (build conf w raw))" by auto
next
  assume "storage_Stat w key = None"
  with assms build_cache_deleted_first [of w conf raw]
  show "precededBy (\<lambda>e. e = EvDelete key) isCreatePod (snd (build conf w raw))" by simp
next
  assume "storage_Stat w key = None" "EvStat key \<in> set (snd (build conf w raw))"
  with build_cache_delete_called [of key conf w raw]
  show "EvDelete key \<in> set (snd (build conf w raw))" by blast
next
  fix k
  assume "storage_Stat w key \<noteq> None"
  with assms(2) build_cache_skipped [of w conf k raw]
  show "EvDelete k \<notin> set (snd (build conf w raw))" by simp
next
  assume "storage_Stat w key \<noteq> None" "EvStat key \<in> set (snd (build conf w raw))"
  then show "EvRun (GitHome conf @ ''/'' @ Repository conf)
            [''git'', ''archive'', ''--format=tar.gz'', ''--output='' @ App conf @ ''.tar.gz'',
             Short raw]
            \<in> set (snd (build conf w raw))"
    using build_cache_goes_on by blast
next
  fix e
  assume "EvDelete key \<in> set (snd (build conf w raw)) \<and> storage_Delete w key = Some e"
  with build_cache_delete_failed [of key conf w raw e]
  show "fst (build conf w raw) = Failed (CacheDeleteFailed e)"
    and "createdPods (snd (build conf w raw)) = []"
    by blast+
qed

theorem C3_counterexample:
  "fst (hooks_GetAppConfig
          (world0\<lparr>hooks_GetAppConfig := (\<lambda>u a. ([''DRYCC_DISABLE_CACHE'' \<mapsto> ''1''], None)),
                  storage_Stat := (\<lambda>k. Some (StorageFault ''503''))\<rparr>) ''alice'' ''foo'')
      ''DRYCC_DISABLE_CACHE'' = Some ''1'' \<and>
   storage_Stat
     (world0\<lparr>hooks_GetAppConfig := (\<lambda>u a. ([''DRYCC_DISABLE_CACHE'' \<mapsto> ''1''], None)),
             storage_Stat := (\<lambda>k. Some (StorageFault ''503''))\<rparr>) ''home/foo/cache''
     = Some (StorageFault ''503'') \<and>
   EvStat ''home/foo/cache''
     \<in> set (snd (build conf0
         (world0\<lparr>hooks_GetAppConfig := (\<lambda>u a. ([''DRYCC_DISABLE_CACHE'' \<mapsto> ''1''], None)),
                 storage_Stat := (\<lambda>k. Some (StorageFault ''503''))\<rparr>) sha0)) \<and>
   fst (build conf0
         (world0\<lparr>hooks_GetAppConfig := (\<lambda>u a. ([''DRYCC_DISABLE_CACHE'' \<mapsto> ''1''], None)),
                 storage_Stat := (\<lambda>k. Some (StorageFault ''503''))\<rparr>) sha0) = Success \<and>
   length (createdPods (snd (build conf0
         (world0\<lparr>hooks_GetAppConfig := (\<lambda>u a. ([''DRYCC_DISABLE_CACHE'' \<mapsto> ''1''], None)),
                 storage_Stat := (\<lambda>k. Some (StorageFault ''503''))\<rparr>) sha0))) = 1"
  by (simp add: run_defs sample_defs)

theorem C3_witness:
  "EvDelete ''home/foo/cache''
     \<in> set (snd (build conf0
         (world0\<lparr>hooks_GetAppConfig := (\<lambda>u a. ([''DRYCC_DISABLE_CACHE'' \<mapsto> ''1''], None)),
                 storage_Stat := (\<lambda>k. None)\<rparr>) sha0)) \<and>
   precededBy (\<lambda>e. e = EvDelete ''home/foo/cache'') isCreatePod
     (snd (build conf0
         (world0\<lparr>hooks_GetAppConfig := (\<lambda>u a. ([''DRYCC_DISABLE_CACHE'' \<mapsto> ''1''], None)),
                 storage_Stat := (\<lambda>k. None)\<rparr>) sha0)) \<and>
   fst (build conf0
         (world0\<lparr>hooks_GetAppConfig := (\<lambda>u a. ([''DRYCC_DISABLE_CACHE'' \<mapsto> ''1''], None)),
                 storage_Stat := (\<lambda>k. None),
                 storage_Delete := (\<lambda>k. Some (StorageFault ''503''))\<rparr>) sha0)
     = Failed (CacheDeleteFailed (StorageFault ''503''))"
proof -
  let ?w1 = "world0\<lparr>hooks_GetAppConfig := (\<lambda>u a. ([''DRYCC_DISABLE_CACHE'' \<mapsto> ''1''], None)),
                 storage_Stat := (\<lambda>k. None)\<rparr>"
  let ?w2 = "world0\<lparr>hooks_GetAppConfig := (\<lambda>u a. ([''DRYCC_DISABLE_CACHE'' \<mapsto> ''1''], None)),
                 storage_Stat := (\<lambda>k. None),
                 storage_Delete := (\<lambda>k. Some (StorageFault ''503''))\<rparr>"
  have d1: "fst (hooks_GetAppConfig ?w1 (Username conf0) (App conf0)) ''DRYCC_DISABLE_CACHE'' \<noteq> None"
    and d2: "fst (hooks_GetAppConfig ?w2 (Username conf0) (App conf0)) ''DRYCC_DISABLE_CACHE'' \<noteq> None"
    by simp_all
  have key: "''home/foo/cache'' = ''home/'' @ App conf0 @ ''/cache''"
    by (simp add: conf0_def)
  have s1: "storage_Stat ?w1 ''home/foo/cache'' = None"
    by simp
  have e1: "EvStat ''home/foo/cache'' \<in> set (snd (build conf0 ?w1 sha0))"
    by (simp add: run_defs sample_defs)
  have e2: "EvDelete ''home/foo/cache'' \<in> set (snd (build conf0 ?w2 sha0)) \<and>
      storage_Delete ?w2 ''home/foo/cache'' = Some (StorageFault ''503'')"
    by (simp add: run_defs sample_defs)
  from C3_cache_invalidation [OF d1 key, of sha0] s1 e1
  have "EvDelete ''home/foo/cache'' \<in> set (snd (build conf0 ?w1 sha0))"
    and "precededBy (\<lambda>e. e = EvDelete ''home/foo/cache'') isCreatePod (snd (build conf0 ?w1 sha0))"
    by blast+
  moreover from C3_cache_invalidation [OF d2 key, of sha0] e2
  have "fst (build conf0 ?w2 sha0) = Failed (CacheDeleteFailed (StorageFault ''503''))"
    by blast
  ultimately show ?thesis by blast
qed


subsection \<open>The environment secret\<close>

lemma secretsAfter_upper: "list_all (\<lambda>e. region e = 0) evs \<Longrightarrow> secretsAfter S evs = S"
proof (induction evs arbitrary: S)
  case Nil
  then show ?case by simp
next
  case (Cons e evs)
  then have "secretsStep S e = S"
    by (cases "(S, e)" rule: secretsStep.cases) auto
  with Cons show ?case by simp
qed

lemma upper_mem: "list_all (\<lambda>e. region e = 0) evs \<Longrightarrow> e \<in> set evs \<Longrightarrow> region e = 0"
  by (simp add: list_all_iff)

lemma launchPod_secrets [simp]:
  "secretsAfter S (snd (launchPod conf w l sbi stack img name pod)) = S"
  by (rule secretsAfter_late) (auto dest: launchPod_stage)

lemma deleteEnvSecret_secrets [simp]:
  "secretsAfter S (deleteEnvSecret w ns n) =
     (if secrets_Delete w ns n = None then S - {(ns, n)} else S)"
  by (auto simp add: deleteEnvSecret_def)

lemma deleteEnvSecret_mem:
  "e \<in> set (deleteEnvSecret w ns n) \<longleftrightarrow>
     e = EvDeleteSecret ns n (secrets_Delete w ns n) \<or>
     (\<exists>x. secrets_Delete w ns n = Some x \<and> e = EvLog (UnableToDeleteSecret n x))"
  by (auto simp add: deleteEnvSecret_def split: option.splits)

lemma selectBuilder_secret:
  "secretsAfter S (snd (selectBuilder conf w l appConf sbi stack)) =
     (if EvCreateSecret (PodNamespace conf) (appName l @ ''-build-env'') None
           \<in> set (snd (selectBuilder conf w l appConf sbi stack))
      then (if secrets_Delete w (PodNamespace conf) (appName l @ ''-build-env'') = None
            then S - {(PodNamespace conf, appName l @ ''-build-env'')}
            else insert (PodNamespace conf, appName l @ ''-build-env'') S)
      else S)"
  by (auto simp add: selectBuilder_def dockerBuild_def slugBuild_def Let_def deleteEnvSecret_mem
        split: sum.split option.split)

lemma selectBuilder_secret_calls:
  "EvCreateSecret ns n r \<in> set (snd (selectBuilder conf w l appConf sbi stack)) \<Longrightarrow>
   ns = PodNamespace conf \<and> n = appName l @ ''-build-env'' \<and>
   \<not> Contains (index stack ''name'') ''container'' \<and>
   (r = None \<longrightarrow>
      EvDeleteSecret ns n (secrets_Delete w ns n)
        \<in> set (snd (selectBuilder conf w l appConf sbi stack)) \<and>
      (\<forall>x. secrets_Delete w ns n = Some x \<longrightarrow>
           EvLog (UnableToDeleteSecret n x)
             \<in> set (snd (selectBuilder conf w l appConf sbi stack))))"
  by (auto simp add: selectBuilder_def dockerBuild_def slugBuild_def Let_def deleteEnvSecret_mem
        split: sum.splits option.splits if_splits)

lemma build_secret:
  "(\<forall>S. secretsAfter S (snd (build conf w raw)) =
     (if EvCreateSecret (PodNamespace conf) (App conf @ ''-build-env'') None
           \<in> set (snd (build conf w raw))
      then (if secrets_Delete w (PodNamespace conf) (App conf @ ''-build-env'') = None
            then S - {(PodNamespace conf, App conf @ ''-build-env'')}
            else insert (PodNamespace conf, App conf @ ''-build-env'') S)
      else S)) \<and>
   (\<forall>ns n r. EvCreateSecret ns n r \<in> set (snd (build conf w raw)) \<longrightarrow>
      ns = PodNamespace conf \<and> n = App conf @ ''-build-env'' \<and>
      (r = None \<longrightarrow>
         EvDeleteSecret ns n (secrets_Delete w ns n) \<in> set (snd (build conf w raw)) \<and>
         (\<forall>x. secrets_Delete w ns n = Some x \<longrightarrow>
              EvLog (UnableToDeleteSecret n x) \<in> set (snd (build conf w raw)))))"
  (is "?P (build conf w raw)")
proof (rule build_rule)
  show "closedUnder (\<lambda>e. region e = 0) ?P"
    unfolding closedUnder_def
  proof (rule conjI; intro allI impI)
    fix x evs
    assume k: "list_all (\<lambda>e. region e = 0) evs"
    then have "\<And>ns n r. EvCreateSecret ns n r \<notin> set evs"
      by (auto dest: upper_mem)
    with k show "?P (Failed x, evs)"
      by (simp add: secretsAfter_upper)
  next
    fix pre post r
    assume pre: "list_all (\<lambda>e. region e = 0) pre" and post: "list_all (\<lambda>e. region e = 0) post"
      and r: "?P r"
    from pre post have no: "\<And>ns n r. EvCreateSecret ns n r \<notin> set pre \<and>
        EvCreateSecret ns n r \<notin> set post"
      by (auto dest: upper_mem)
    from r have one: "\<forall>S. secretsAfter S (snd r) =
     (if EvCreateSecret (PodNamespace conf) (App conf @ ''-build-env'') None \<in> set (snd r)
      then (if secrets_Delete w (PodNamespace conf) (App conf @ ''-build-env'') = None
            then S - {(PodNamespace conf, App conf @ ''-build-env'')}
            else insert (PodNamespace conf, App conf @ ''-build-env'') S)
      else S)"
      and two: "\<forall>ns n r'. EvCreateSecret ns n r' \<in> set (snd r) \<longrightarrow>
      ns = PodNamespace conf \<and> n = App conf @ ''-build-env'' \<and>
      (r' = None \<longrightarrow>
         EvDeleteSecret ns n (secrets_Delete w ns n) \<in> set (snd r) \<and>
         (\<forall>x. secrets_Delete w ns n = Some x \<longrightarrow>
              EvLog (UnableToDeleteSecret n x) \<in> set (snd r)))"
      by blast+
    show "?P (fst r, pre @ snd r @ post)"
    proof (intro conjI allI impI)
      fix S
      show "secretsAfter S (snd (fst r, pre @ snd r @ post)) =
     (if EvCreateSecret (PodNamespace conf) (App conf @ ''-build-env'') None
           \<in> set (snd (fst r, pre @ snd r @ post))
      then (if secrets_Delete w (PodNamespace conf) (App conf @ ''-build-env'') = None
            then S - {(PodNamespace conf, App conf @ ''-build-env'')}
            else insert (PodNamespace conf, App conf @ ''-build-env'') S)
      else S)"
        using one no by (simp add: secretsAfter_upper [OF pre] secretsAfter_upper [OF post])
    next
      fix ns n r'
      assume "EvCreateSecret ns n r' \<in> set (snd (fst r, pre @ snd r @ post))"
      with no have "EvCreateSecret ns n r' \<in> set (snd r)" by auto
      with two show "ns = PodNamespace conf" "n = App conf @ ''-build-env''"
        by blast+
    next
      fix ns n r'
      assume "EvCreateSecret ns n r' \<in> set (snd (fst r, pre @ snd r @ post))" "r' = None"
      with no have "EvCreateSecret ns n None \<in> set (snd r)" by auto
      with two show "EvDeleteSecret ns n (secrets_Delete w ns n)
          \<in> set (snd (fst r, pre @ snd r @ post))"
        by auto
    next
      fix ns n r' x
      assume "EvCreateSecret ns n r' \<in> set (snd (fst r, pre @ snd r @ post))" "r' = None"
        "secrets_Delete w ns n = Some x"
      with no have "EvCreateSecret ns n None \<in> set (snd r)" "secrets_Delete w ns n = Some x"
        by auto
      with two show "EvLog (UnableToDeleteSecret n x) \<in> set (snd (fst r, pre @ snd r @ post))"
        by auto
    qed
  qed
next
  fix l appConf sbi stack
  assume s: "staged conf w raw l appConf sbi stack"
  then have a: "appName l = App conf" by (simp add: staged_def)
  show "?P (selectBuilder conf w l appConf sbi stack)"
  proof (intro conjI allI impI)
    fix S
    show "secretsAfter S (snd (selectBuilder conf w l appConf sbi stack)) =
     (if EvCreateSecret (PodNamespace conf) (App conf @ ''-build-env'') None
           \<in> set (snd (selectBuilder conf w l appConf sbi stack))
      then (if secrets_Delete w (PodNamespace conf) (App conf @ ''-build-env'') = None
            then S - {(PodNamespace conf, App conf @ ''-build-env'')}
            else insert (PodNamespace conf, App conf @ ''-build-env'') S)
      else S)"
      using selectBuilder_secret [of S conf w l appConf sbi stack] unfolding a .
  next
    fix ns n r
    assume "EvCreateSecret ns n r \<in> set (snd (selectBuilder conf w l appConf sbi stack))"
    from selectBuilder_secret_calls [OF this]
    show "ns = PodNamespace conf" "n = App conf @ ''-build-env''"
      unfolding a by blast+
  next
    fix ns n r
    assume "EvCreateSecret ns n r \<in> set (snd (selectBuilder conf w l appConf sbi stack))"
      "r = None"
    with selectBuilder_secret_calls [of ns n r conf w l appConf sbi stack]
    show "EvDeleteSecret ns n (secrets_Delete w ns n)
        \<in> set (snd (selectBuilder conf w l appConf sbi stack))"
      by blast
  next
    fix ns n r x
    assume "EvCreateSecret ns n r \<in> set (snd (selectBuilder conf w l appConf sbi stack))"
      "r = None" "secrets_Delete w ns n = Some x"
    with selectBuilder_secret_calls [of ns n r conf w l appConf sbi stack]
    show "EvLog (UnableToDeleteSecret n x)
        \<in> set (snd (selectBuilder conf w l appConf sbi stack))"
      by blast
  qed
qed

text \<open>
  C8 (amended). On every path of a build on which the environment secret was created,
  whether the build succeeds, fails or panics, the deletion of the secret
  \<open>{app}-build-env\<close> in the build namespace is called. When that call succeeds the secret
  does not exist after the build; when it fails the failure is only logged and the
  secret is still there after the build.
\<close>

theorem C8_env_secret:
  assumes "EvCreateSecret ns n None \<in> set (snd (build conf w raw))"
  shows "ns = PodNamespace conf \<and> n = App conf @ ''-build-env'' \<and>
         EvDeleteSecret ns n (secrets_Delete w ns n) \<in> set (snd (build conf w raw)) \<and>
         (secrets_Delete w ns n = None \<longrightarrow> (ns, n) \<notin> secretsAfter S (snd (build conf w raw))) \<and>
         (\<forall>x. secrets_Delete w ns n = Some x \<longrightarrow>
              (ns, n) \<in> secretsAfter S (snd (build conf w raw)) \<and>
              EvLog (UnableToDeleteSecret n x) \<in> set (snd (build conf w raw)))"
proof -
  have t: "ns = PodNamespace conf \<and> n = App conf @ ''-build-env'' \<and>
      EvDeleteSecret ns n (secrets_Delete w ns n) \<in> set (snd (build conf w raw)) \<and>
      (\<forall>x. secrets_Delete w ns n = Some x \<longrightarrow>
           EvLog (UnableToDeleteSecret n x) \<in> set (snd (build conf w raw)))"
    using build_secret [of conf w raw, THEN conjunct2, rule_format, OF assms] by auto
  have "secretsAfter S (snd (build conf w raw)) =
     (if EvCreateSecret (PodNamespace conf) (App conf @ ''-build-env'') None
           \<in> set (snd (build conf w raw))
      then (if secrets_Delete w (PodNamespace conf) (App conf @ ''-build-env'') = None
            then S - {(PodNamespace conf, App conf @ ''-build-env'')}
            else insert (PodNamespace conf, App conf @ ''-build-env'') S)
      else S)"
    using build_secret [of conf w raw, THEN conjunct1, rule_format, of S] .
  with t assms have after: "secretsAfter S (snd (build conf w raw)) =
      (if secrets_Delete w ns n = None then S - {(ns, n)} else insert (ns, n) S)"
    by simp
  have "secrets_Delete w ns n = None \<longrightarrow> (ns, n) \<notin> secretsAfter S (snd (build conf w raw))"
    unfolding after by simp
  moreover have "\<forall>x. secrets_Delete w ns n = Some x \<longrightarrow>
      (ns, n) \<in> secretsAfter S (snd (build conf w raw))"
    unfolding after by simp
  ultimately show ?thesis using t by blast
qed

theorem C8_counterexample:
  "fst (build conf0 (world0\<lparr>secrets_Delete := (\<lambda>ns n. Some ''timeout'')\<rparr>) sha0) = Success \<and>
   EvCreateSecret ''drycc'' ''foo-build-env'' None
     \<in> set (snd (build conf0 (world0\<lparr>secrets_Delete := (\<lambda>ns n. Some ''timeout'')\<rparr>) sha0)) \<and>
   EvDeleteSecret ''drycc'' ''foo-build-env'' (Some ''timeout'')
     \<in> set (snd (build conf0 (world0\<lparr>secrets_Delete := (\<lambda>ns n. Some ''timeout'')\<rparr>) sha0)) \<and>
   (''drycc'', ''foo-build-env'')
     \<in> secretsAfter {}
         (snd (build conf0 (world0\<lparr>secrets_Delete := (\<lambda>ns n. Some ''timeout'')\<rparr>) sha0))"
  by (simp add: run_defs sample_defs)

theorem C8_witness:
  "EvCreateSecret ''drycc'' ''foo-build-env'' None
     \<in> set (snd (build conf0 (world0\<lparr>pods_Get := (\<lambda>ns n. Inr [Some 7])\<rparr>) sha0)) \<and>
   fst (build conf0 (world0\<lparr>pods_Get := (\<lambda>ns n. Inr [Some 7])\<rparr>) sha0)
     = Failed (BuilderFailed 7) \<and>
   EvDeleteSecret ''drycc'' ''foo-build-env'' None
     \<in> set (snd (build conf0 (world0\<lparr>pods_Get := (\<lambda>ns n. Inr [Some 7])\<rparr>) sha0)) \<and>
   (''drycc'', ''foo-build-env'')
     \<notin> secretsAfter {(''drycc'', ''foo-build-env'')}
         (snd (build conf0 (world0\<lparr>pods_Get := (\<lambda>ns n. Inr [Some 7])\<rparr>) sha0))"
proof -
  let ?w = "world0\<lparr>pods_Get := (\<lambda>ns n. Inr [Some 7])\<rparr>"
  have ev: "EvCreateSecret ''drycc'' ''foo-build-env'' None \<in> set (snd (build conf0 ?w sha0))"
    by (simp add: run_defs sample_defs)
  have out: "fst (build conf0 ?w sha0) = Failed (BuilderFailed 7)"
    by (simp add: run_defs sample_defs)
  have del: "secrets_Delete ?w ''drycc'' ''foo-build-env'' = None"
    by (simp add: world0_def)
  from C8_env_secret [OF ev, of "{(''drycc'', ''foo-build-env'')}"]
  have "EvDeleteSecret ''drycc'' ''foo-build-env''
          (secrets_Delete ?w ''drycc'' ''foo-build-env'') \<in> set (snd (build conf0 ?w sha0))"
    and "secrets_Delete ?w ''drycc'' ''foo-build-env'' = None \<longrightarrow>
      (''drycc'', ''foo-build-env'')
        \<notin> secretsAfter {(''drycc'', ''foo-build-env'')} (snd (build conf0 ?w sha0))"
    by blast+
  then have "EvDeleteSecret ''drycc'' ''foo-build-env'' None \<in> set (snd (build conf0 ?w sha0))"
    and "(''drycc'', ''foo-build-env'')
        \<notin> secretsAfter {(''drycc'', ''foo-build-env'')} (snd (build conf0 ?w sha0))"
    unfolding del by simp_all
  with ev out show ?thesis by blast
qed


end
